theory Spec2Isabelle
  imports Main "HOL-Library.Word"
begin

section \<open>File-backed wallet: data model\<close>

text \<open>
  The theory embeds \<^verbatim>\<open>wallet/file/file.go\<close>. Go byte slices are lists of 8-bit words,
  Go strings are \<open>string\<close> (a list of 8-bit characters), \<^verbatim>\<open>uint32\<close> and \<^verbatim>\<open>uint8\<close> are
  words. A Go function returning \<^verbatim>\<open>(T, error)\<close> returns \<open>error + T\<close>; a run-time panic
  is the error value \<open>Panic\<close>, which no caller can wrap or replace.
\<close>

type_synonym byte = "8 word"
type_synonym bytes = "byte list"

datatype error =
    Panic string
  | Errorf string
  | Wrapf string error
  | ErrRandom
  | ErrInvalidKeySize
  | ErrInvalidNonceSize
  | ErrOpen
  | JSONError string
  | LibError string

text \<open>
  \<open>Errorf m\<close> is \<^verbatim>\<open>fmt.Errorf(m)\<close> without a wrapped cause, \<open>Wrapf m e\<close> is
  \<^verbatim>\<open>fmt.Errorf(m + "%w", e)\<close>. \<open>ErrRandom\<close> is a failed \<^verbatim>\<open>rand.Read\<close>;
  \<open>ErrInvalidKeySize\<close>, \<open>ErrInvalidNonceSize\<close> and \<open>ErrOpen\<close> are the three errors of the
  Deoxys-II package, \<open>ErrOpen\<close> being its only authentication failure; \<open>JSONError\<close> is an
  error of \<^verbatim>\<open>encoding/json\<close>; \<open>LibError\<close> is an error of any other collaborator.
\<close>

text \<open>
  Wrapping and replacing an error, as callers do with a returned error, do not apply to
  a panic, which unwinds the callers.
\<close>

fun wrapf :: "string \<Rightarrow> error \<Rightarrow> error" where
  "wrapf m (Panic p) = Panic p"
| "wrapf m e = Wrapf m e"

fun replace_err :: "error \<Rightarrow> error \<Rightarrow> error" where
  "replace_err new (Panic p) = Panic p"
| "replace_err new e = new"

definition stateKeySize :: nat where "stateKeySize = 32"
definition stateNonceSize :: nat where "stateNonceSize = 32"
definition kdfSaltSize :: nat where "kdfSaltSize = 32"

record secretState =
  Algorithm :: string
  Data :: string

record kdfArgon2 =
  Salt :: bytes
  Time :: "32 word"
  Memory :: "32 word"
  Threads :: "8 word"

record secretStateKDF =
  Argon2 :: "kdfArgon2 option"

text \<open>
  A Go slice that the code re-slices: \<open>visible\<close> are its \<^verbatim>\<open>len\<close> elements, \<open>spare\<close> the
  elements of the backing array between \<^verbatim>\<open>len\<close> and \<^verbatim>\<open>cap\<close>. \<^verbatim>\<open>s[:n]\<close> panics when
  \<open>n\<close> exceeds the capacity and otherwise has exactly \<open>n\<close> elements.
\<close>

record goslice =
  visible :: bytes
  spare :: bytes

definition slice_to :: "goslice \<Rightarrow> nat \<Rightarrow> error + bytes" where
  "slice_to s n =
     (if n \<le> length (visible s) + length (spare s)
      then Inr (take n (visible s @ spare s))
      else Inl (Panic ''slice bounds out of range''))"

record secretStateEnvelope =
  env_KDF :: secretStateKDF
  env_Nonce :: goslice
  env_Data :: bytes

subsection \<open>Collaborators of the envelope\<close>

text \<open>
  The primitives the envelope code calls are outside the repository and are parameters:
  Argon2id (\<^verbatim>\<open>argon2.IDKey\<close>: password, salt, time, memory, threads, key length), the
  Deoxys-II AEAD with empty destination and associated data (key, nonce, text), and the
  JSON codec of \<^verbatim>\<open>secretState\<close>.
\<close>

record crypto =
  argon2_IDKey :: "bytes \<Rightarrow> bytes \<Rightarrow> 32 word \<Rightarrow> 32 word \<Rightarrow> 8 word \<Rightarrow> nat \<Rightarrow> bytes"
  aead_Seal :: "bytes \<Rightarrow> bytes \<Rightarrow> bytes \<Rightarrow> bytes"
  aead_Open :: "bytes \<Rightarrow> bytes \<Rightarrow> bytes \<Rightarrow> bytes option"
  json_Marshal_state :: "secretState \<Rightarrow> string + bytes"
  json_Unmarshal_state :: "bytes \<Rightarrow> string + secretState"

text \<open>The sizes of Deoxys-II-256-128: a 32-byte key and a 15-byte nonce.\<close>

definition KeySize :: nat where "KeySize = 32"
definition NonceSize :: nat where "NonceSize = 15"

definition bytes_of_string :: "string \<Rightarrow> bytes" where
  "bytes_of_string s = map (\<lambda>c. of_nat (of_char c)) s"

text \<open>
  \<^verbatim>\<open>crypto/rand\<close> is a tape of bytes still to be delivered: \<^verbatim>\<open>rand.Read\<close> of an
  \<open>n\<close>-byte buffer either fills it with the next \<open>n\<close> bytes, which are consumed, or
  fails.
\<close>

type_synonym rng = bytes

definition rand_Read :: "rng \<Rightarrow> nat \<Rightarrow> error + (bytes \<times> rng)" where
  "rand_Read r n = (if length r < n then Inl ErrRandom else Inr (take n r, drop n r))"

text \<open>
  \<^verbatim>\<open>argon2.IDKey\<close> panics when the number of passes or the parallelism is zero.
\<close>

definition IDKey :: "crypto \<Rightarrow> bytes \<Rightarrow> bytes \<Rightarrow> 32 word \<Rightarrow> 32 word \<Rightarrow> 8 word \<Rightarrow> nat \<Rightarrow> error + bytes" where
  "IDKey P password salt t m th keyLen =
     (if t < 1 then Inl (Panic ''argon2: number of rounds too small'')
      else if th < 1 then Inl (Panic ''argon2: parallelism degree too low'')
      else Inr (argon2_IDKey P password salt t m th keyLen))"

text \<open>
  \<^verbatim>\<open>deoxysii.New\<close> rejects a key of the wrong size; the AEAD instance is its key.
  \<^verbatim>\<open>Seal\<close> panics on a nonce of the wrong size, \<^verbatim>\<open>Open\<close> returns an error for it and
  \<open>ErrOpen\<close> when authentication fails.
\<close>

definition deoxysii_New :: "bytes \<Rightarrow> error + bytes" where
  "deoxysii_New key = (if length key \<noteq> KeySize then Inl ErrInvalidKeySize else Inr key)"

definition deoxysii_Seal :: "crypto \<Rightarrow> bytes \<Rightarrow> bytes \<Rightarrow> bytes \<Rightarrow> error + bytes" where
  "deoxysii_Seal P aead nonce plaintext =
     (if length nonce \<noteq> NonceSize then Inl (Panic ''deoxysii: invalid nonce size'')
      else Inr (aead_Seal P aead nonce plaintext))"

definition deoxysii_Open :: "crypto \<Rightarrow> bytes \<Rightarrow> bytes \<Rightarrow> bytes \<Rightarrow> error + bytes" where
  "deoxysii_Open P aead nonce ciphertext =
     (if length nonce \<noteq> NonceSize then Inl ErrInvalidNonceSize
      else case aead_Open P aead nonce ciphertext of
             None \<Rightarrow> Inl ErrOpen
           | Some pt \<Rightarrow> Inr pt)"

section \<open>Sealing and opening the secret state\<close>

definition kdfArgon2_deriveKey :: "crypto \<Rightarrow> kdfArgon2 \<Rightarrow> string \<Rightarrow> error + bytes" where
  "kdfArgon2_deriveKey P k passphrase =
     IDKey P (bytes_of_string passphrase) (Salt k) (Time k) (Memory k) (Threads k) stateKeySize"

definition deriveKey :: "crypto \<Rightarrow> secretStateEnvelope \<Rightarrow> string \<Rightarrow> error + bytes" where
  "deriveKey P e passphrase =
     (case Argon2 (env_KDF e) of
        Some k \<Rightarrow> kdfArgon2_deriveKey P k passphrase
      | None \<Rightarrow> Inl (Errorf ''unsupported key derivation algorithm''))"

definition Seal :: "crypto \<Rightarrow> secretState \<Rightarrow> string \<Rightarrow> rng \<Rightarrow> error + (secretStateEnvelope \<times> rng)" where
  "Seal P s passphrase r =
     (case rand_Read r stateNonceSize of
        Inl err \<Rightarrow> Inl err
      | Inr (nonce, r1) \<Rightarrow>
     (case rand_Read r1 kdfSaltSize of
        Inl err \<Rightarrow> Inl err
      | Inr (salt, r2) \<Rightarrow>
     (let envelope =
            \<lparr> env_KDF = \<lparr> Argon2 = Some \<lparr> Salt = salt, Time = 1, Memory = 64 * 1024, Threads = 4 \<rparr> \<rparr>,
              env_Nonce = \<lparr> visible = nonce, spare = [] \<rparr>,
              env_Data = [] \<rparr>
      in case deriveKey P envelope passphrase of
        Inl err \<Rightarrow> Inl err
      | Inr key \<Rightarrow>
     (case json_Marshal_state P s of
        Inl m \<Rightarrow> Inl (JSONError m)
      | Inr data \<Rightarrow>
     (case deoxysii_New key of
        Inl err \<Rightarrow> Inl err
      | Inr aead \<Rightarrow>
     (case slice_to (env_Nonce envelope) NonceSize of
        Inl err \<Rightarrow> Inl err
      | Inr nonce' \<Rightarrow>
     (case deoxysii_Seal P aead nonce' data of
        Inl err \<Rightarrow> Inl err
      | Inr ct \<Rightarrow> Inr (envelope \<lparr> env_Data := ct \<rparr>, r2))))))))"

definition Open :: "crypto \<Rightarrow> secretStateEnvelope \<Rightarrow> string \<Rightarrow> error + secretState" where
  "Open P e passphrase =
     (case deriveKey P e passphrase of
        Inl err \<Rightarrow> Inl err
      | Inr key \<Rightarrow>
     (case deoxysii_New key of
        Inl err \<Rightarrow> Inl err
      | Inr aead \<Rightarrow>
     (case slice_to (env_Nonce e) NonceSize of
        Inl err \<Rightarrow> Inl err
      | Inr nonce' \<Rightarrow>
     (case deoxysii_Open P aead nonce' (env_Data e) of
        Inl err \<Rightarrow> Inl err
      | Inr pt \<Rightarrow>
     (case json_Unmarshal_state P pt of
        Inl m \<Rightarrow> Inl (JSONError m)
      | Inr state \<Rightarrow> Inr state)))))"


section \<open>Wallet configuration, signers and the wallet\<close>

text \<open>
  The four algorithm tags are string constants of package \<^verbatim>\<open>wallet\<close>, which is not
  part of the embedded file. Only their being pairwise different matters below.
\<close>

text \<open>Modelled from the spec: the tag of the algorithm "Ed25519 deterministic"
  (mnemonic phrase, ADR 8 derivation keyed by the account index), declared in package
  \<^verbatim>\<open>wallet\<close>.\<close>

definition AlgorithmEd25519Adr8 :: string where "AlgorithmEd25519Adr8 = ''ed25519-adr8''"

text \<open>Modelled from the spec: the tag of the algorithm "Ed25519 raw" (encoded raw
  private key, direct import), declared in package \<^verbatim>\<open>wallet\<close>.\<close>

definition AlgorithmEd25519Raw :: string where "AlgorithmEd25519Raw = ''ed25519-raw''"

text \<open>Modelled from the spec: the tag of the algorithm "Secp256k1 HD" (mnemonic
  phrase, BIP 44 derivation at the account index), declared in package \<^verbatim>\<open>wallet\<close>.\<close>

definition AlgorithmSecp256k1Bip44 :: string where "AlgorithmSecp256k1Bip44 = ''secp256k1-bip44''"

text \<open>Modelled from the spec: the tag of the algorithm "Secp256k1 raw" (encoded raw
  private key, direct import), declared in package \<^verbatim>\<open>wallet\<close>.\<close>

definition AlgorithmSecp256k1Raw :: string where "AlgorithmSecp256k1Raw = ''secp256k1-raw''"

record walletConfig =
  cfg_Algorithm :: string
  cfg_Number :: "32 word"

text \<open>Modelled from the spec: \<^verbatim>\<open>wallet.ImportKind\<close> and \<^verbatim>\<open>wallet.ImportSource\<close>,
  declared outside the embedded file. The kind is a string type with two named values,
  mnemonic and private key; the source carries the kind and the data.\<close>

datatype ImportKind = ImportKindMnemonic | ImportKindPrivateKey | ImportKindOther string

record ImportSource =
  src_Kind :: ImportKind
  src_Data :: string

text \<open>Modelled from the spec: the signer types, declared outside the embedded file.
  The dynamic type of \<^verbatim>\<open>fileWallet.signer\<close> is the result of \<^verbatim>\<open>ed25519.WrapSigner\<close>,
  which has an \<^verbatim>\<open>Unwrap\<close> method returning the consensus-layer signer it wraps, or a
  Secp256k1 signer, which has none: the consensus-layer capability is "available only
  for Ed25519-derived and Ed25519-raw wallets". \<open>'ed\<close> and \<open>'secp\<close> are the key types of
  the two curve libraries.\<close>

datatype ('ed, 'secp) signer = Ed25519Wrapped 'ed | Secp256k1Signer 'secp

text \<open>Modelled from the spec: the public key of a signer, of the type of its curve;
  declared outside the embedded file.\<close>

datatype PublicKey = Ed25519PublicKey bytes | Secp256k1PublicKey bytes

text \<open>Modelled from the spec: the address scheme with the public key it applies to,
  "direct scheme for Ed25519, Ethereum-compatible scheme for Secp256k1", or the zero
  value with no scheme; declared outside the embedded file.\<close>

datatype SignatureAddressSpec = SpecEd25519 bytes | SpecSecp256k1Eth bytes | SpecEmpty

record ('ed, 'secp) fileWallet =
  w_cfg :: walletConfig
  w_state :: secretState
  w_signer :: "('ed, 'secp) signer"

subsection \<open>Collaborators of the wallet\<close>

text \<open>
  Parameters: the configuration decoder, the four key constructors (the ADR 8 derivation
  takes mnemonic, passphrase and number; the BIP 44 one mnemonic and number; the raw ones
  the secret data only), public keys and addresses, the mnemonic encoder, the JSON codec
  of the envelope, and the file system \<open>'fs\<close> with its configuration directory. A
  collaborator's error is its message. \<open>WriteFile\<close> returns the file system it leaves
  behind also when it fails; \<open>types_NewAddress\<close> is \<open>None\<close> where the library panics.
\<close>

record ('raw, 'ed, 'secp, 'fs) sys =
  mapstructure_Decode :: "'raw \<Rightarrow> string + walletConfig"
  sakg_GetAccountSigner :: "string \<Rightarrow> string \<Rightarrow> 32 word \<Rightarrow> string + 'ed"
  unmarshalBase64 :: "string \<Rightarrow> string + 'ed"
  Secp256k1FromMnemonic :: "string \<Rightarrow> 32 word \<Rightarrow> string + 'secp"
  Secp256k1FromHex :: "string \<Rightarrow> string + 'secp"
  ed25519_Public :: "'ed \<Rightarrow> bytes"
  secp256k1_Public :: "'secp \<Rightarrow> bytes"
  types_NewAddress :: "SignatureAddressSpec \<Rightarrow> bytes option"
  bip39_NewMnemonic :: "bytes \<Rightarrow> string + string"
  json_Marshal_envelope :: "secretStateEnvelope \<Rightarrow> string + bytes"
  json_Unmarshal_envelope :: "bytes \<Rightarrow> string + secretStateEnvelope"
  WriteFile :: "'fs \<Rightarrow> string \<Rightarrow> bytes \<Rightarrow> string option \<times> 'fs"
  ReadFile :: "'fs \<Rightarrow> string \<Rightarrow> string + bytes"
  config_Directory :: string
  filepath_Join :: "string \<Rightarrow> string \<Rightarrow> string"

definition getWalletFilename :: "('raw, 'ed, 'secp, 'fs) sys \<Rightarrow> string \<Rightarrow> string" where
  "getWalletFilename S name = filepath_Join S (config_Directory S) (name @ ''.wallet'')"

text \<open>
  \<^verbatim>\<open>bip39.NewEntropy\<close> checks the bit size (a multiple of 32 from 128 to 256) and reads
  that many bits from \<^verbatim>\<open>crypto/rand\<close>.
\<close>

definition bip39_NewEntropy :: "rng \<Rightarrow> nat \<Rightarrow> error + (bytes \<times> rng)" where
  "bip39_NewEntropy r bitSize =
     (if bitSize mod 32 \<noteq> 0 \<or> bitSize < 128 \<or> 256 < bitSize
      then Inl (LibError ''Entropy length must be [128, 256] and a multiple of 32'')
      else rand_Read r (bitSize div 8))"

definition unmarshalConfig :: "('raw, 'ed, 'secp, 'fs) sys \<Rightarrow> 'raw option \<Rightarrow> error + walletConfig" where
  "unmarshalConfig S raw =
     (case raw of
        None \<Rightarrow> Inl (Errorf ''missing configuration'')
      | Some m \<Rightarrow>
          (case mapstructure_Decode S m of
             Inl msg \<Rightarrow> Inl (LibError msg)
           | Inr cfg \<Rightarrow> Inr cfg))"

definition HasConsensusSigner :: "('raw, 'ed, 'secp, 'fs) sys \<Rightarrow> 'raw option \<Rightarrow> bool" where
  "HasConsensusSigner S rawCfg =
     (case unmarshalConfig S rawCfg of
        Inl err \<Rightarrow> False
      | Inr cfg \<Rightarrow>
          (if cfg_Algorithm cfg = AlgorithmEd25519Raw \<or> cfg_Algorithm cfg = AlgorithmEd25519Adr8
           then True else False))"

definition newWallet ::
  "('raw, 'ed, 'secp, 'fs) sys \<Rightarrow> secretState \<Rightarrow> walletConfig \<Rightarrow> error + ('ed, 'secp) fileWallet" where
  "newWallet S state cfg =
     (if Algorithm state = AlgorithmEd25519Adr8 then
        (case sakg_GetAccountSigner S (Data state) [] (cfg_Number cfg) of
           Inl msg \<Rightarrow> Inl (Wrapf ''failed to derive signer: '' (LibError msg))
         | Inr sg \<Rightarrow> Inr \<lparr> w_cfg = cfg, w_state = state, w_signer = Ed25519Wrapped sg \<rparr>)
      else if Algorithm state = AlgorithmEd25519Raw then
        (case unmarshalBase64 S (Data state) of
           Inl msg \<Rightarrow> Inl (Wrapf ''failed to initialize signer: '' (LibError msg))
         | Inr sg \<Rightarrow> Inr \<lparr> w_cfg = cfg, w_state = state, w_signer = Ed25519Wrapped sg \<rparr>)
      else if Algorithm state = AlgorithmSecp256k1Bip44 then
        (case Secp256k1FromMnemonic S (Data state) (cfg_Number cfg) of
           Inl msg \<Rightarrow> Inl (Wrapf ''failed to initialize signer: '' (LibError msg))
         | Inr sg \<Rightarrow> Inr \<lparr> w_cfg = cfg, w_state = state, w_signer = Secp256k1Signer sg \<rparr>)
      else if Algorithm state = AlgorithmSecp256k1Raw then
        (case Secp256k1FromHex S (Data state) of
           Inl msg \<Rightarrow> Inl (Wrapf ''failed to initialize signer: '' (LibError msg))
         | Inr sg \<Rightarrow> Inr \<lparr> w_cfg = cfg, w_state = state, w_signer = Secp256k1Signer sg \<rparr>)
      else Inl (Errorf (''algorithm '' @ [CHR 0x27] @ Algorithm state @ [CHR 0x27] @ '' not supported'')))"

definition ConsensusSigner :: "('ed, 'secp) fileWallet \<Rightarrow> 'ed option" where
  "ConsensusSigner w =
     (case w_signer w of
        Ed25519Wrapped ws \<Rightarrow> Some ws
      | Secp256k1Signer s \<Rightarrow> None)"

definition Signer :: "('ed, 'secp) fileWallet \<Rightarrow> ('ed, 'secp) signer" where
  "Signer w = w_signer w"

definition Public :: "('raw, 'ed, 'secp, 'fs) sys \<Rightarrow> ('ed, 'secp) signer \<Rightarrow> PublicKey" where
  "Public S sg =
     (case sg of
        Ed25519Wrapped k \<Rightarrow> Ed25519PublicKey (ed25519_Public S k)
      | Secp256k1Signer k \<Rightarrow> Secp256k1PublicKey (secp256k1_Public S k))"

text \<open>
  The type assertions on the public key panic when the configured algorithm and the
  signer's curve disagree.
\<close>

definition SignatureAddressSpec ::
  "('raw, 'ed, 'secp, 'fs) sys \<Rightarrow> ('ed, 'secp) fileWallet \<Rightarrow> error + SignatureAddressSpec" where
  "SignatureAddressSpec S w =
     (if cfg_Algorithm (w_cfg w) = AlgorithmEd25519Adr8 \<or> cfg_Algorithm (w_cfg w) = AlgorithmEd25519Raw then
        (case Public S (Signer w) of
           Ed25519PublicKey pk \<Rightarrow> Inr (SpecEd25519 pk)
         | Secp256k1PublicKey pk \<Rightarrow> Inl (Panic ''interface conversion: not ed25519.PublicKey''))
      else if cfg_Algorithm (w_cfg w) = AlgorithmSecp256k1Bip44 \<or> cfg_Algorithm (w_cfg w) = AlgorithmSecp256k1Raw then
        (case Public S (Signer w) of
           Secp256k1PublicKey pk \<Rightarrow> Inr (SpecSecp256k1Eth pk)
         | Ed25519PublicKey pk \<Rightarrow> Inl (Panic ''interface conversion: not secp256k1.PublicKey''))
      else Inr SpecEmpty)"

definition Address :: "('raw, 'ed, 'secp, 'fs) sys \<Rightarrow> ('ed, 'secp) fileWallet \<Rightarrow> error + bytes" where
  "Address S w =
     (case SignatureAddressSpec S w of
        Inl err \<Rightarrow> Inl err
      | Inr spec \<Rightarrow>
          (case types_NewAddress S spec of
             None \<Rightarrow> Inl (Panic ''address: unsupported public key type'')
           | Some a \<Rightarrow> Inr a))"

definition UnsafeExport :: "('ed, 'secp) fileWallet \<Rightarrow> string" where
  "UnsafeExport w = Data (w_state w)"

section \<open>The wallet factory\<close>

text \<open>
  The factory's operations take the file system and return it with their result;
  \<open>Load\<close> only reads it.
\<close>

definition Create ::
  "crypto \<Rightarrow> ('raw, 'ed, 'secp, 'fs) sys \<Rightarrow> 'fs \<Rightarrow> rng \<Rightarrow> string \<Rightarrow> string \<Rightarrow> 'raw option
     \<Rightarrow> (error + ('ed, 'secp) fileWallet) \<times> 'fs" where
  "Create P S fs r name passphrase rawCfg =
     (case unmarshalConfig S rawCfg of
        Inl err \<Rightarrow> (Inl err, fs)
      | Inr cfg \<Rightarrow>
     (case bip39_NewEntropy r 256 of
        Inl err \<Rightarrow> (Inl err, fs)
      | Inr (entropy, r1) \<Rightarrow>
     (case bip39_NewMnemonic S entropy of
        Inl msg \<Rightarrow> (Inl (LibError msg), fs)
      | Inr mnemonic \<Rightarrow>
     (let state = \<lparr> Algorithm = cfg_Algorithm cfg, Data = mnemonic \<rparr>
      in case Seal P state passphrase r1 of
        Inl err \<Rightarrow> (Inl (wrapf ''failed to seal state: '' err), fs)
      | Inr (envelope, r2) \<Rightarrow>
     (case json_Marshal_envelope S envelope of
        Inl msg \<Rightarrow> (Inl (Wrapf ''failed to marshal envelope: '' (JSONError msg)), fs)
      | Inr raw \<Rightarrow>
     (case WriteFile S fs (getWalletFilename S name) raw of
        (Some msg, fs') \<Rightarrow> (Inl (Wrapf ''failed to save state: '' (LibError msg)), fs')
      | (None, fs') \<Rightarrow> (newWallet S state cfg, fs')))))))"

definition Load ::
  "crypto \<Rightarrow> ('raw, 'ed, 'secp, 'fs) sys \<Rightarrow> 'fs \<Rightarrow> string \<Rightarrow> string \<Rightarrow> 'raw option
     \<Rightarrow> error + ('ed, 'secp) fileWallet" where
  "Load P S fs name passphrase rawCfg =
     (case unmarshalConfig S rawCfg of
        Inl err \<Rightarrow> Inl err
      | Inr cfg \<Rightarrow>
     (case ReadFile S fs (getWalletFilename S name) of
        Inl msg \<Rightarrow> Inl (Wrapf ''failed to load wallet state: '' (LibError msg))
      | Inr raw \<Rightarrow>
     (case json_Unmarshal_envelope S raw of
        Inl msg \<Rightarrow> Inl (Wrapf ''failed to load wallet state: '' (JSONError msg))
      | Inr envelope \<Rightarrow>
     (case Open P envelope passphrase of
        Inl err \<Rightarrow>
          Inl (replace_err (Errorf ''failed to open wallet state (maybe incorrect passphrase?)'') err)
      | Inr state \<Rightarrow> newWallet S state cfg))))"

definition Import ::
  "crypto \<Rightarrow> ('raw, 'ed, 'secp, 'fs) sys \<Rightarrow> 'fs \<Rightarrow> rng \<Rightarrow> string \<Rightarrow> string \<Rightarrow> 'raw option
     \<Rightarrow> ImportSource \<Rightarrow> (error + ('ed, 'secp) fileWallet) \<times> 'fs" where
  "Import P S fs r name passphrase rawCfg src =
     (case unmarshalConfig S rawCfg of
        Inl err \<Rightarrow> (Inl err, fs)
      | Inr cfg \<Rightarrow>
     (case (case src_Kind src of
              ImportKindMnemonic \<Rightarrow>
                (if cfg_Algorithm cfg = AlgorithmEd25519Adr8 \<or> cfg_Algorithm cfg = AlgorithmSecp256k1Bip44
                 then None
                 else Some (Errorf (''algorithm '' @ [CHR 0x27] @ cfg_Algorithm cfg @ [CHR 0x27]
                                      @ '' does not support import from mnemonic'')))
            | ImportKindPrivateKey \<Rightarrow>
                (if cfg_Algorithm cfg = AlgorithmEd25519Raw \<or> cfg_Algorithm cfg = AlgorithmSecp256k1Raw
                 then None
                 else Some (Errorf (''algorithm '' @ [CHR 0x27] @ cfg_Algorithm cfg @ [CHR 0x27]
                                      @ '' does not support import from private key'')))
            | ImportKindOther k \<Rightarrow> Some (Errorf (''unsupported import kind: '' @ k))) of
        Some err \<Rightarrow> (Inl err, fs)
      | None \<Rightarrow>
     (let state = \<lparr> Algorithm = cfg_Algorithm cfg, Data = src_Data src \<rparr>
      in case newWallet S state cfg of
        Inl err \<Rightarrow> (Inl err, fs)
      | Inr wallet \<Rightarrow>
     (case Seal P state passphrase r of
        Inl err \<Rightarrow> (Inl (wrapf ''failed to seal state: '' err), fs)
      | Inr (envelope, r') \<Rightarrow>
     (case json_Marshal_envelope S envelope of
        Inl msg \<Rightarrow> (Inl (Wrapf ''failed to marshal envelope: '' (JSONError msg)), fs)
      | Inr raw \<Rightarrow>
     (case WriteFile S fs (getWalletFilename S name) raw of
        (Some msg, fs') \<Rightarrow> (Inl (Wrapf ''failed to save state: '' (LibError msg)), fs')
      | (None, fs') \<Rightarrow> (Inr wallet, fs')))))))"

section \<open>Contracts of the collaborators\<close>

definition aead_correct :: "crypto \<Rightarrow> bool" where
  "aead_correct P \<longleftrightarrow>
     (\<forall>key nonce pt. length key = KeySize \<and> length nonce = NonceSize
        \<longrightarrow> aead_Open P key nonce (aead_Seal P key nonce pt) = Some pt)"

definition json_roundtrip :: "crypto \<Rightarrow> secretState \<Rightarrow> bool" where
  "json_roundtrip P s \<longleftrightarrow>
     (\<forall>b. json_Marshal_state P s = Inr b \<longrightarrow> json_Unmarshal_state P b = Inr s)"

section \<open>A small instance of the collaborators\<close>

definition string_of_bytes :: "bytes \<Rightarrow> string" where
  "string_of_bytes b = map (\<lambda>w. char_of (unat w)) b"

text \<open>
  A key is the passphrase padded with zeros, a ciphertext is the plaintext followed by a
  16-byte tag computed from key, nonce and plaintext, and a secret state is encoded as
  the length of its algorithm tag followed by the tag and the data.
\<close>

definition toy_tag :: "bytes \<Rightarrow> bytes \<Rightarrow> bytes \<Rightarrow> bytes" where
  "toy_tag key nonce pt =
     map (\<lambda>k. k + sum_list nonce + sum_list pt + of_nat (length pt)) (take 16 (key @ replicate 16 0))"

definition toy :: crypto where
  "toy = \<lparr> argon2_IDKey = (\<lambda>pw salt t m th n. take n (pw @ replicate n 0)),
           aead_Seal = (\<lambda>key nonce pt. pt @ toy_tag key nonce pt),
           aead_Open = (\<lambda>key nonce ct.
              if 16 \<le> length ct
                 \<and> drop (length ct - 16) ct = toy_tag key nonce (take (length ct - 16) ct)
              then Some (take (length ct - 16) ct) else None),
           json_Marshal_state = (\<lambda>s. Inr (of_nat (length (Algorithm s))
                                   # bytes_of_string (Algorithm s) @ bytes_of_string (Data s))),
           json_Unmarshal_state = (\<lambda>b. case b of
                [] \<Rightarrow> Inl ''unexpected end of JSON input''
              | n # rest \<Rightarrow>
                  if length rest < unat n then Inl ''unexpected end of JSON input''
                  else Inr \<lparr> Algorithm = string_of_bytes (take (unat n) rest),
                             Data = string_of_bytes (drop (unat n) rest) \<rparr>) \<rparr>"

definition s0 :: secretState where
  "s0 = \<lparr> Algorithm = ''ed25519-raw'', Data = ''AQID'' \<rparr>"

definition tape0 :: rng where
  "tape0 = replicate 32 1 @ replicate 32 2"

definition key0 :: bytes where
  "key0 = [112, 119] @ replicate 30 0"

definition kdf0 :: secretStateKDF where
  "kdf0 = \<lparr> Argon2 = Some \<lparr> Salt = replicate 32 2, Time = 1, Memory = 65536, Threads = 4 \<rparr> \<rparr>"

definition env0 :: secretStateEnvelope where
  "env0 = \<lparr> env_KDF = kdf0,
            env_Nonce = \<lparr> visible = replicate 32 1, spare = [] \<rparr>,
            env_Data = [11, 101, 100, 50, 53, 53, 49, 57, 45, 114, 97, 119, 65, 81, 73, 68]
                       @ toy_tag key0 (replicate 15 1)
                           [11, 101, 100, 50, 53, 53, 49, 57, 45, 114, 97, 119, 65, 81, 73, 68] \<rparr>"

definition env_empty :: secretStateEnvelope where
  "env_empty = env0 \<lparr> env_Data := toy_tag key0 (replicate 15 1) [] \<rparr>"

definition env_nokdf :: secretStateEnvelope where
  "env_nokdf = env0 \<lparr> env_KDF := \<lparr> Argon2 = None \<rparr> \<rparr>"

text \<open>
  The wallet's collaborators in the small instance: the raw configuration is the
  configuration, a key is its secret data and number, the file system is an association
  list, and an envelope is stored as salt, nonce and ciphertext.
\<close>

type_synonym toy_fs = "(string \<times> bytes) list"
type_synonym toy_key = "string \<times> 32 word"

definition toy_sys :: "(walletConfig, toy_key, toy_key, toy_fs) sys" where
  "toy_sys =
     \<lparr> mapstructure_Decode = (\<lambda>raw. Inr raw),
       sakg_GetAccountSigner = (\<lambda>mnemonic pw n.
          if mnemonic = [] then Inl ''invalid mnemonic'' else Inr (mnemonic, n)),
       unmarshalBase64 = (\<lambda>d.
          if CHR '' '' \<in> set d then Inl ''illegal base64 data'' else Inr (d, 0)),
       Secp256k1FromMnemonic = (\<lambda>mnemonic n.
          if mnemonic = [] then Inl ''invalid mnemonic'' else Inr (mnemonic, n)),
       Secp256k1FromHex = (\<lambda>d.
          if CHR '' '' \<in> set d then Inl ''invalid hex'' else Inr (d, 0)),
       ed25519_Public = (\<lambda>k. ucast (snd k) # bytes_of_string (fst k)),
       secp256k1_Public = (\<lambda>k. ucast (snd k) # bytes_of_string (fst k)),
       types_NewAddress = (\<lambda>spec. case spec of
            SpecEd25519 pk \<Rightarrow> Some (0 # pk)
          | SpecSecp256k1Eth pk \<Rightarrow> Some (1 # pk)
          | SpecEmpty \<Rightarrow> None),
       bip39_NewMnemonic = (\<lambda>entropy.
          if length entropy = 32
          then Inr (concat (map (\<lambda>b. if b < 128 then ''able '' else ''zoo '') (take 4 entropy)))
          else Inl ''Entropy length must be [128, 256] and a multiple of 32''),
       json_Marshal_envelope = (\<lambda>e. case Argon2 (env_KDF e) of
            None \<Rightarrow> Inl ''unsupported''
          | Some k \<Rightarrow> Inr (Salt k @ visible (env_Nonce e) @ env_Data e)),
       json_Unmarshal_envelope = (\<lambda>b.
          if length b < 64 then Inl ''unexpected end of JSON input''
          else Inr \<lparr> env_KDF = \<lparr> Argon2 = Some \<lparr> Salt = take 32 b, Time = 1,
                                                    Memory = 65536, Threads = 4 \<rparr> \<rparr>,
                     env_Nonce = \<lparr> visible = take 32 (drop 32 b), spare = [] \<rparr>,
                     env_Data = drop 64 b \<rparr>),
       WriteFile = (\<lambda>fs name b. (None, (name, b) # fs)),
       ReadFile = (\<lambda>fs name. case map_of fs name of
            None \<Rightarrow> Inl ''no such file or directory''
          | Some b \<Rightarrow> Inr b),
       config_Directory = ''/cfg'',
       filepath_Join = (\<lambda>d n. d @ ''/'' @ n) \<rparr>"

definition fs0 :: toy_fs where
  "fs0 = [(''/cfg/w.wallet'', replicate 32 2 @ replicate 32 1 @ env_Data env0)]"

definition cfg_raw :: walletConfig where
  "cfg_raw = \<lparr> cfg_Algorithm = ''ed25519-raw'', cfg_Number = 0 \<rparr>"

definition fs0' :: toy_fs where
  "fs0' = [(''/cfg/w.wallet'', replicate 32 2 @ replicate 32 1 @ (env_Data env0)[3 := 0])]"

definition w_raw :: "(toy_key, toy_key) fileWallet" where
  "w_raw = \<lparr> w_cfg = cfg_raw, w_state = s0, w_signer = Ed25519Wrapped (''AQID'', 0) \<rparr>"

definition s_secp :: secretState where
  "s_secp = \<lparr> Algorithm = ''secp256k1-raw'', Data = ''0a0b'' \<rparr>"

definition cfg_secp :: walletConfig where
  "cfg_secp = \<lparr> cfg_Algorithm = ''secp256k1-raw'', cfg_Number = 0 \<rparr>"

definition w_secp :: "(toy_key, toy_key) fileWallet" where
  "w_secp = \<lparr> w_cfg = cfg_secp, w_state = s_secp, w_signer = Secp256k1Signer (''0a0b'', 0) \<rparr>"

definition src0 :: ImportSource where
  "src0 = \<lparr> src_Kind = ImportKindPrivateKey, src_Data = ''AQID'' \<rparr>"

definition mnemonic0 :: string where
  "mnemonic0 = concat (replicate 4 ''zoo '')"

definition env_c :: secretStateEnvelope where
  "env_c = \<lparr> env_KDF = \<lparr> Argon2 = Some \<lparr> Salt = replicate 32 200, Time = 1,
                                          Memory = 65536, Threads = 4 \<rparr> \<rparr>,
             env_Nonce = \<lparr> visible = replicate 32 200, spare = [] \<rparr>,
             env_Data = aead_Seal toy key0 (replicate 15 200)
                          (11 # bytes_of_string ''ed25519-raw'' @ bytes_of_string mnemonic0) \<rparr>"

definition raw_c :: bytes where
  "raw_c = replicate 32 200 @ replicate 32 200 @ env_Data env_c"

definition src_bad :: ImportSource where
  "src_bad = \<lparr> src_Kind = ImportKindPrivateKey, src_Data = ''not base64'' \<rparr>"

definition err_b64 :: error where
  "err_b64 = Wrapf ''failed to initialize signer: '' (LibError ''illegal base64 data'')"

definition cfg_rsa :: walletConfig where
  "cfg_rsa = \<lparr> cfg_Algorithm = ''rsa'', cfg_Number = 0 \<rparr>"

definition key1 :: bytes where
  "key1 = [112, 87] @ replicate 30 0"

definition env_zero_time :: secretStateEnvelope where
  "env_zero_time = env0 \<lparr> env_KDF := \<lparr> Argon2 = Some \<lparr> Salt = replicate 32 2, Time = 0,
                                                          Memory = 65536, Threads = 4 \<rparr> \<rparr> \<rparr>"

text \<open>An instance whose key derivation ignores the requested key length.\<close>

definition short_key :: crypto where
  "short_key = toy \<lparr> argon2_IDKey := (\<lambda>pw salt t m th n. pw) \<rparr>"

text \<open>
  \<^verbatim>\<open>json.Marshal\<close> coerces a Go string to valid UTF-8: each invalid byte is encoded as
  the replacement character U+FFFD, which decodes to the three bytes EF BF BD. The bytes
  F8 to FF occur in no UTF-8 encoding. The instance \<open>go_json\<close> encodes as \<open>toy\<close> does
  after this replacement of the bytes F8 to FF, and decodes as \<open>toy\<close> does.
\<close>

definition coerce_utf8 :: "string \<Rightarrow> string" where
  "coerce_utf8 s =
     concat (map (\<lambda>c. if (0xF8::nat) \<le> of_char c then [CHR 0xEF, CHR 0xBF, CHR 0xBD] else [c]) s)"

definition go_json :: crypto where
  "go_json = toy \<lparr> json_Marshal_state := (\<lambda>s.
       Inr (of_nat (length (coerce_utf8 (Algorithm s)))
              # bytes_of_string (coerce_utf8 (Algorithm s))
              @ bytes_of_string (coerce_utf8 (Data s)))) \<rparr>"

definition s_ff :: secretState where
  "s_ff = \<lparr> Algorithm = ''ed25519-raw'', Data = [CHR 0xFF] \<rparr>"

definition env_ff :: secretStateEnvelope where
  "env_ff = \<lparr> env_KDF = kdf0,
              env_Nonce = \<lparr> visible = replicate 32 1, spare = [] \<rparr>,
              env_Data = aead_Seal toy key0 (replicate 15 1)
                           (11 # bytes_of_string ''ed25519-raw'' @ [0xEF, 0xBF, 0xBD]) \<rparr>"

definition cfg_adr8 :: walletConfig where
  "cfg_adr8 = \<lparr> cfg_Algorithm = ''ed25519-adr8'', cfg_Number = 0 \<rparr>"

definition w_adr8 :: "(toy_key, toy_key) fileWallet" where
  "w_adr8 = \<lparr> w_cfg = cfg_adr8,
              w_state = \<lparr> Algorithm = ''ed25519-adr8'', Data = mnemonic0 \<rparr>,
              w_signer = Ed25519Wrapped (mnemonic0, 0) \<rparr>"

definition raw_adr8 :: bytes where
  "raw_adr8 = replicate 32 200 @ replicate 32 200
       @ aead_Seal toy key0 (replicate 15 200)
           (12 # bytes_of_string ''ed25519-adr8'' @ bytes_of_string mnemonic0)"

text \<open>A wallet whose configuration names another algorithm than its secret state.\<close>

definition w_mixed :: "(toy_key, toy_key) fileWallet" where
  "w_mixed = \<lparr> w_cfg = cfg_secp, w_state = s0, w_signer = Ed25519Wrapped (''AQID'', 0) \<rparr>"

section \<open>Facts about the envelope operations\<close>

lemma length_bytes_of_string: "length (bytes_of_string s) = length s"
  by (simp add: bytes_of_string_def)

lemma string_of_bytes_inverse: "string_of_bytes (bytes_of_string s) = s"
proof -
  have "char_of (unat (of_nat (of_char c) :: 8 word)) = c" for c :: char
    by (simp add: unat_of_nat)
  then show ?thesis
    by (simp add: string_of_bytes_def bytes_of_string_def map_idI)
qed

lemma length_toy_tag: "length (toy_tag key nonce pt) = 16"
  by (simp add: toy_tag_def)

lemma toy_aead_correct: "aead_correct toy"
  by (simp add: aead_correct_def toy_def length_toy_tag)

lemma go_json_aead_correct: "aead_correct go_json"
  using toy_aead_correct by (simp add: aead_correct_def go_json_def)

lemma toy_json_roundtrip: "length (Algorithm s) < 256 \<Longrightarrow> json_roundtrip toy s"
  by (auto simp: json_roundtrip_def toy_def unat_of_nat string_of_bytes_inverse
      length_bytes_of_string)

lemma slice_to_length: "slice_to sl n = Inr b \<Longrightarrow> length b = n"
  by (auto simp: slice_to_def split: if_splits)

lemma slice_to_prefix:
  "n \<le> length (visible sl) \<Longrightarrow> slice_to sl n = Inr (take n (visible sl))"
  by (simp add: slice_to_def)

lemma Seal_Inr:
  assumes "Seal P s p r = Inr (e, r')"
  shows "\<exists>key data.
      64 \<le> length r \<and> r' = drop 64 r
    \<and> argon2_IDKey P (bytes_of_string p) (take 32 (drop 32 r)) 1 65536 4 32 = key
    \<and> length key = 32
    \<and> json_Marshal_state P s = Inr data
    \<and> e = \<lparr> env_KDF = \<lparr> Argon2 = Some \<lparr> Salt = take 32 (drop 32 r), Time = 1,
                                          Memory = 65536, Threads = 4 \<rparr> \<rparr>,
            env_Nonce = \<lparr> visible = take 32 r, spare = [] \<rparr>,
            env_Data = aead_Seal P key (take 15 r) data \<rparr>"
  using assms
  unfolding Seal_def rand_Read_def stateNonceSize_def kdfSaltSize_def deriveKey_def
    kdfArgon2_deriveKey_def stateKeySize_def deoxysii_New_def slice_to_def deoxysii_Seal_def
    KeySize_def NonceSize_def Let_def IDKey_def
  by (auto split: sum.splits if_splits prod.splits simp: min_def drop_take)

lemma Open_decrypted:
  assumes "deriveKey P e p = Inr key" and "length key = KeySize"
    and "slice_to (env_Nonce e) NonceSize = Inr n"
    and "aead_Open P key n (env_Data e) = Some pt"
  shows "Open P e p =
    (case json_Unmarshal_state P pt of Inl m \<Rightarrow> Inl (JSONError m) | Inr st \<Rightarrow> Inr st)"
  using assms slice_to_length [OF assms(3)]
  by (simp add: Open_def deoxysii_New_def deoxysii_Open_def)

lemma Open_rejected:
  assumes "deriveKey P e p = Inr key" and "length key = KeySize"
    and "slice_to (env_Nonce e) NonceSize = Inr n"
    and "aead_Open P key n (env_Data e) = None"
  shows "Open P e p = Inl ErrOpen"
  using assms slice_to_length [OF assms(3)]
  by (simp add: Open_def deoxysii_New_def deoxysii_Open_def)

lemma Load_open_error:
  assumes "unmarshalConfig S rawCfg = Inr cfg"
    and "ReadFile S fs (getWalletFilename S name) = Inr raw"
    and "json_Unmarshal_envelope S raw = Inr e"
    and "Open P e p = Inl err"
  shows "Load P S fs name p rawCfg =
    Inl (replace_err (Errorf ''failed to open wallet state (maybe incorrect passphrase?)'') err)"
  using assms by (simp add: Load_def)

section \<open>Claims about sealing and opening\<close>

text \<open>
  C1, as stated, fails: the state need not come back for any data string. With a JSON
  codec that coerces strings to valid UTF-8 as \<^verbatim>\<open>json.Marshal\<close> does, and an AEAD that
  decrypts what it encrypted, Seal of a state whose data is the single byte FF succeeds,
  and Open of the envelope with the same passphrase returns a state whose data is the
  three bytes EF BF BD.
\<close>

theorem seal_open_invalid_utf8_counterexample:
  "aead_correct go_json
   \<and> Seal go_json s_ff ''pw'' tape0 = Inr (env_ff, [])
   \<and> Open go_json env_ff ''pw''
        = Inr \<lparr> Algorithm = ''ed25519-raw'', Data = [CHR 0xEF, CHR 0xBF, CHR 0xBD] \<rparr>
   \<and> Open go_json env_ff ''pw'' \<noteq> Inr s_ff"
proof -
  have a: "Seal go_json s_ff ''pw'' tape0 = Inr (env_ff, [])" by code_simp
  have b: "Open go_json env_ff ''pw''
        = Inr \<lparr> Algorithm = ''ed25519-raw'', Data = [CHR 0xEF, CHR 0xBF, CHR 0xBD] \<rparr>" by code_simp
  have c: "Open go_json env_ff ''pw'' \<noteq> Inr s_ff" by code_simp
  show ?thesis using go_json_aead_correct a b c by blast
qed

text \<open>
  C1, amended. For every secret state \<open>s\<close> that the JSON codec decodes back from its
  own encoding (with \<^verbatim>\<open>encoding/json\<close>: algorithm and data are valid UTF-8) and every
  passphrase \<open>p\<close>, if \<open>Seal\<close> succeeds with envelope \<open>e\<close>, then \<open>Open e p\<close> succeeds
  with \<open>s\<close>. The AEAD is assumed to decrypt what it encrypted.
\<close>

theorem seal_open_roundtrip:
  assumes seal: "Seal P s p r = Inr (e, r')"
    and aead: "aead_correct P"
    and json: "json_roundtrip P s"
  shows "Open P e p = Inr s"
proof -
  from Seal_Inr [OF seal] obtain key data where
    len: "64 \<le> length r"
    and key: "argon2_IDKey P (bytes_of_string p) (take 32 (drop 32 r)) 1 65536 4 32 = key"
    and klen: "length key = 32"
    and data: "json_Marshal_state P s = Inr data"
    and e: "e = \<lparr> env_KDF = \<lparr> Argon2 = Some \<lparr> Salt = take 32 (drop 32 r), Time = 1,
                                          Memory = 65536, Threads = 4 \<rparr> \<rparr>,
            env_Nonce = \<lparr> visible = take 32 r, spare = [] \<rparr>,
            env_Data = aead_Seal P key (take 15 r) data \<rparr>"
    by blast
  have dk: "deriveKey P e p = Inr key"
    using key by (simp add: e deriveKey_def kdfArgon2_deriveKey_def stateKeySize_def IDKey_def)
  have kl: "length key = KeySize"
    using klen by (simp add: KeySize_def)
  have sl: "slice_to (env_Nonce e) NonceSize = Inr (take 15 r)"
    using len by (simp add: e slice_to_def NonceSize_def min_def)
  have op: "aead_Open P key (take 15 r) (env_Data e) = Some data"
    using aead kl len by (simp add: e aead_correct_def NonceSize_def)
  have un: "json_Unmarshal_state P data = Inr s"
    using json data by (simp add: json_roundtrip_def)
  show ?thesis
    by (simp add: Open_decrypted [OF dk kl sl op] un)
qed

theorem seal_open_roundtrip_witness:
  "Seal toy s0 ''pw'' tape0 = Inr (env0, []) \<and> aead_correct toy \<and> json_roundtrip toy s0
   \<and> Open toy env0 ''pw'' = Inr s0"
proof -
  have h: "Seal toy s0 ''pw'' tape0 = Inr (env0, [])"
    by code_simp
  have j: "json_roundtrip toy s0"
    by (rule toy_json_roundtrip) (simp add: s0_def)
  show ?thesis
    using seal_open_roundtrip [OF h toy_aead_correct j] h toy_aead_correct j by simp
qed

text \<open>
  C2. For an envelope whose key derivation and nonce are in order, Open with a passphrase
  whose key the AEAD rejects and Open of the envelope with one ciphertext byte replaced,
  which the AEAD rejects, both fail, with the same error \<open>ErrOpen\<close> and no secret state;
  \<open>Load\<close> reports both with one and the same message. That the AEAD rejects a wrong key
  and a modified ciphertext is its integrity, assumed here at the two points.
\<close>

theorem open_failures_undifferentiated:
  assumes key: "deriveKey P e p = Inr key" and klen: "length key = KeySize"
    and key': "deriveKey P e p' = Inr key'" and klen': "length key' = KeySize"
    and nonce: "slice_to (env_Nonce e) NonceSize = Inr n"
    and wrong: "aead_Open P key' n (env_Data e) = None"
    and tampered: "aead_Open P key n ((env_Data e)[i := b]) = None"
    and cfg: "unmarshalConfig S rawCfg = Inr cfg"
    and rd: "ReadFile S fs (getWalletFilename S name) = Inr raw"
    and env: "json_Unmarshal_envelope S raw = Inr e"
    and rd': "ReadFile S fs' (getWalletFilename S name) = Inr raw'"
    and env': "json_Unmarshal_envelope S raw' = Inr (e \<lparr> env_Data := (env_Data e)[i := b] \<rparr>)"
  shows "Open P e p' = Inl ErrOpen
    \<and> Open P (e \<lparr> env_Data := (env_Data e)[i := b] \<rparr>) p = Inl ErrOpen
    \<and> Load P S fs name p' rawCfg
        = Inl (Errorf ''failed to open wallet state (maybe incorrect passphrase?)'')
    \<and> Load P S fs' name p rawCfg
        = Inl (Errorf ''failed to open wallet state (maybe incorrect passphrase?)'')"
proof -
  let ?e' = "e \<lparr> env_Data := (env_Data e)[i := b] \<rparr>"
  have o1: "Open P e p' = Inl ErrOpen"
    by (rule Open_rejected [OF key' klen' nonce wrong])
  have dk: "deriveKey P ?e' p = Inr key"
    using key by (simp add: deriveKey_def)
  have sl: "slice_to (env_Nonce ?e') NonceSize = Inr n"
    using nonce by simp
  have rej: "aead_Open P key n (env_Data ?e') = None"
    using tampered by simp
  have o2: "Open P ?e' p = Inl ErrOpen"
    by (rule Open_rejected [OF dk klen sl rej])
  show ?thesis
    using o1 o2 Load_open_error [OF cfg rd env o1] Load_open_error [OF cfg rd' env' o2]
    by simp
qed

theorem open_failures_undifferentiated_witness:
  "Open toy env0 ''pw'' = Inr s0
   \<and> Open toy env0 ''pW'' = Inl ErrOpen
   \<and> Open toy (env0 \<lparr> env_Data := (env_Data env0)[3 := 0] \<rparr>) ''pw'' = Inl ErrOpen
   \<and> Load toy toy_sys fs0 ''w'' ''pW'' (Some cfg_raw)
       = Load toy toy_sys fs0' ''w'' ''pw'' (Some cfg_raw)"
proof -
  have ok: "Open toy env0 ''pw'' = Inr s0" by code_simp
  have key: "deriveKey toy env0 ''pw'' = Inr key0" by code_simp
  have klen: "length key0 = KeySize" by code_simp
  have key': "deriveKey toy env0 ''pW'' = Inr ([112, 87] @ replicate 30 0)" by code_simp
  have klen': "length ([112, 87] @ replicate 30 0 :: bytes) = KeySize" by code_simp
  have nonce: "slice_to (env_Nonce env0) NonceSize = Inr (replicate 15 1)" by code_simp
  have wrong: "aead_Open toy ([112, 87] @ replicate 30 0) (replicate 15 1) (env_Data env0) = None"
    by code_simp
  have tampered: "aead_Open toy key0 (replicate 15 1) ((env_Data env0)[3 := 0]) = None"
    by code_simp
  have cfg: "unmarshalConfig toy_sys (Some cfg_raw) = Inr cfg_raw" by code_simp
  have rd: "ReadFile toy_sys fs0 (getWalletFilename toy_sys ''w'')
      = Inr (replicate 32 2 @ replicate 32 1 @ env_Data env0)" by code_simp
  have env: "json_Unmarshal_envelope toy_sys (replicate 32 2 @ replicate 32 1 @ env_Data env0)
      = Inr env0" by code_simp
  have rd': "ReadFile toy_sys fs0' (getWalletFilename toy_sys ''w'')
      = Inr (replicate 32 2 @ replicate 32 1 @ (env_Data env0)[3 := 0])" by code_simp
  have env': "json_Unmarshal_envelope toy_sys
        (replicate 32 2 @ replicate 32 1 @ (env_Data env0)[3 := 0])
      = Inr (env0 \<lparr> env_Data := (env_Data env0)[3 := 0] \<rparr>)" by code_simp
  show ?thesis
    using open_failures_undifferentiated
      [OF key klen key' klen' nonce wrong tampered cfg rd env rd' env'] ok
    by simp
qed

text \<open>
  C3, as stated, fails: Seal stores a 32-byte nonce although the cipher requires 15
  bytes, and neither Seal nor Open reports the mismatch; the AEAD is given the first 15
  bytes of the stored nonce.
\<close>

theorem nonce_truncated_counterexample:
  "Seal toy s0 ''pw'' tape0 = Inr (env0, [])
   \<and> length (visible (env_Nonce env0)) = 32 \<and> NonceSize = 15
   \<and> slice_to (env_Nonce env0) NonceSize = Inr (replicate 15 1)
   \<and> Open toy env0 ''pw'' = Inr s0"
  by code_simp

text \<open>
  C3, amended. In Seal and Open the nonce passed to the AEAD is the first \<open>NonceSize\<close>
  bytes of the envelope's nonce and so has exactly the cipher's required size. Seal
  stores a nonce of \<open>stateNonceSize\<close> bytes; a stored nonce at least as long as required
  is cut to that prefix without any error, and Open never reports a nonce-size error.
\<close>

theorem aead_nonce_is_prefix_of_stored_nonce:
  "(\<forall>e r'. Seal P s p r = Inr (e, r') \<longrightarrow>
       length (visible (env_Nonce e)) = stateNonceSize
     \<and> (\<exists>key data. deriveKey P e p = Inr key \<and> json_Marshal_state P s = Inr data
          \<and> env_Data e = aead_Seal P key (take NonceSize (visible (env_Nonce e))) data))
   \<and> (\<forall>key. deriveKey P e p = Inr key \<and> length key = KeySize
          \<and> NonceSize \<le> length (visible (env_Nonce e)) \<longrightarrow>
       length (take NonceSize (visible (env_Nonce e))) = NonceSize
     \<and> Open P e p =
         (case aead_Open P key (take NonceSize (visible (env_Nonce e))) (env_Data e) of
            None \<Rightarrow> Inl ErrOpen
          | Some pt \<Rightarrow>
              (case json_Unmarshal_state P pt of
                 Inl m \<Rightarrow> Inl (JSONError m)
               | Inr st \<Rightarrow> Inr st)))
   \<and> Open P e p \<noteq> Inl ErrInvalidNonceSize"
proof (intro conjI allI impI)
  fix e r'
  assume seal: "Seal P s p r = Inr (e, r')"
  from Seal_Inr [OF seal] obtain key data where
    len: "64 \<le> length r"
    and key: "argon2_IDKey P (bytes_of_string p) (take 32 (drop 32 r)) 1 65536 4 32 = key"
    and data: "json_Marshal_state P s = Inr data"
    and e: "e = \<lparr> env_KDF = \<lparr> Argon2 = Some \<lparr> Salt = take 32 (drop 32 r), Time = 1,
                                          Memory = 65536, Threads = 4 \<rparr> \<rparr>,
            env_Nonce = \<lparr> visible = take 32 r, spare = [] \<rparr>,
            env_Data = aead_Seal P key (take 15 r) data \<rparr>"
    by blast
  show "length (visible (env_Nonce e)) = stateNonceSize"
    using len by (simp add: e stateNonceSize_def)
  have "deriveKey P e p = Inr key"
    using key by (simp add: e deriveKey_def kdfArgon2_deriveKey_def stateKeySize_def IDKey_def)
  moreover have "env_Data e = aead_Seal P key (take NonceSize (visible (env_Nonce e))) data"
    using len by (simp add: e NonceSize_def min_def)
  ultimately show "\<exists>key data. deriveKey P e p = Inr key \<and> json_Marshal_state P s = Inr data
          \<and> env_Data e = aead_Seal P key (take NonceSize (visible (env_Nonce e))) data"
    using data by blast
next
  fix key
  assume a: "deriveKey P e p = Inr key \<and> length key = KeySize
          \<and> NonceSize \<le> length (visible (env_Nonce e))"
  then show "length (take NonceSize (visible (env_Nonce e))) = NonceSize"
    by simp
  from a have sl: "slice_to (env_Nonce e) NonceSize = Inr (take NonceSize (visible (env_Nonce e)))"
    by (simp add: slice_to_prefix)
  show "Open P e p =
         (case aead_Open P key (take NonceSize (visible (env_Nonce e))) (env_Data e) of
            None \<Rightarrow> Inl ErrOpen
          | Some pt \<Rightarrow>
              (case json_Unmarshal_state P pt of
                 Inl m \<Rightarrow> Inl (JSONError m)
               | Inr st \<Rightarrow> Inr st))"
  proof (cases "aead_Open P key (take NonceSize (visible (env_Nonce e))) (env_Data e)")
    case None
    with a sl show ?thesis by (simp add: Open_rejected)
  next
    case (Some pt)
    with a sl show ?thesis by (simp add: Open_decrypted)
  qed
next
  show "Open P e p \<noteq> Inl ErrInvalidNonceSize"
    by (auto simp: Open_def deriveKey_def kdfArgon2_deriveKey_def IDKey_def deoxysii_New_def
        deoxysii_Open_def slice_to_def split: sum.splits option.splits if_splits)
qed

theorem aead_nonce_is_prefix_of_stored_nonce_witness:
  "Seal toy s0 ''pw'' tape0 = Inr (env0, [])
   \<and> length (visible (env_Nonce env0)) = stateNonceSize
   \<and> deriveKey toy env0 ''pw'' = Inr key0 \<and> length key0 = KeySize
   \<and> NonceSize \<le> length (visible (env_Nonce env0))
   \<and> take NonceSize (visible (env_Nonce env0)) = replicate 15 1
   \<and> Open toy env0 ''pw'' =
       (case aead_Open toy key0 (take NonceSize (visible (env_Nonce env0))) (env_Data env0) of
          None \<Rightarrow> Inl ErrOpen
        | Some pt \<Rightarrow>
            (case json_Unmarshal_state toy pt of
               Inl m \<Rightarrow> Inl (JSONError m)
             | Inr st \<Rightarrow> Inr st))"
proof -
  have h: "Seal toy s0 ''pw'' tape0 = Inr (env0, [])" by code_simp
  have k: "deriveKey toy env0 ''pw'' = Inr key0 \<and> length key0 = KeySize
          \<and> NonceSize \<le> length (visible (env_Nonce env0))" by code_simp
  have t: "take NonceSize (visible (env_Nonce env0)) = replicate 15 1" by code_simp
  note inst = aead_nonce_is_prefix_of_stored_nonce [of toy s0 "''pw''" tape0 env0]
  have 1: "length (visible (env_Nonce env0)) = stateNonceSize"
    using inst h by blast
  have 2: "Open toy env0 ''pw'' =
       (case aead_Open toy key0 (take NonceSize (visible (env_Nonce env0))) (env_Data env0) of
          None \<Rightarrow> Inl ErrOpen
        | Some pt \<Rightarrow>
            (case json_Unmarshal_state toy pt of
               Inl m \<Rightarrow> Inl (JSONError m)
             | Inr st \<Rightarrow> Inr st))"
    using inst k by blast
  show ?thesis
    using h k t 1 2 by blast
qed

text \<open>
  C5. Open decrypts with the key it derives from the envelope's own KDF descriptor. With
  the Argon2 variant present that key is Argon2id of the passphrase with the descriptor's
  salt, time, memory and threads: when it has the cipher's key size, Open is the AEAD
  decryption of the envelope's data under that key and the envelope's nonce, followed by
  deserialization; a failed derivation and a key of the wrong size are Open's error.
  Envelopes with the same descriptor give the same key, and the passphrase reaches Open
  only through the key. With no Argon2 variant Open fails with an error and returns no
  secret state.
\<close>

theorem open_key_from_embedded_kdf:
  "(Argon2 (env_KDF e) = None
      \<longrightarrow> Open P e p = Inl (Errorf ''unsupported key derivation algorithm''))
   \<and> (\<forall>k. Argon2 (env_KDF e) = Some k
      \<longrightarrow> deriveKey P e p
          = IDKey P (bytes_of_string p) (Salt k) (Time k) (Memory k) (Threads k) stateKeySize)
   \<and> (\<forall>k key n. Argon2 (env_KDF e) = Some k
        \<and> IDKey P (bytes_of_string p) (Salt k) (Time k) (Memory k) (Threads k) stateKeySize = Inr key
        \<and> length key = KeySize
        \<and> slice_to (env_Nonce e) NonceSize = Inr n
      \<longrightarrow> Open P e p =
          (case aead_Open P key n (env_Data e) of
             None \<Rightarrow> Inl ErrOpen
           | Some pt \<Rightarrow>
               (case json_Unmarshal_state P pt of
                  Inl m \<Rightarrow> Inl (JSONError m)
                | Inr st \<Rightarrow> Inr st)))
   \<and> (\<forall>k err. Argon2 (env_KDF e) = Some k
        \<and> IDKey P (bytes_of_string p) (Salt k) (Time k) (Memory k) (Threads k) stateKeySize = Inl err
      \<longrightarrow> Open P e p = Inl err)
   \<and> (\<forall>k key. Argon2 (env_KDF e) = Some k
        \<and> IDKey P (bytes_of_string p) (Salt k) (Time k) (Memory k) (Threads k) stateKeySize = Inr key
        \<and> length key \<noteq> KeySize
      \<longrightarrow> Open P e p = Inl ErrInvalidKeySize)
   \<and> (env_KDF e = env_KDF e2 \<longrightarrow> deriveKey P e p = deriveKey P e2 p)
   \<and> (deriveKey P e p = deriveKey P e p2 \<longrightarrow> Open P e p = Open P e p2)"
proof (intro conjI allI impI)
  fix k key n
  assume a: "Argon2 (env_KDF e) = Some k
        \<and> IDKey P (bytes_of_string p) (Salt k) (Time k) (Memory k) (Threads k) stateKeySize = Inr key
        \<and> length key = KeySize
        \<and> slice_to (env_Nonce e) NonceSize = Inr n"
  then have dk: "deriveKey P e p = Inr key"
    by (simp add: deriveKey_def kdfArgon2_deriveKey_def)
  show "Open P e p =
          (case aead_Open P key n (env_Data e) of
             None \<Rightarrow> Inl ErrOpen
           | Some pt \<Rightarrow>
               (case json_Unmarshal_state P pt of
                  Inl m \<Rightarrow> Inl (JSONError m)
                | Inr st \<Rightarrow> Inr st))"
  proof (cases "aead_Open P key n (env_Data e)")
    case None
    with a dk show ?thesis by (simp add: Open_rejected)
  next
    case (Some pt)
    with a dk show ?thesis by (simp add: Open_decrypted)
  qed
qed (auto simp: Open_def deriveKey_def kdfArgon2_deriveKey_def deoxysii_New_def
       split: option.splits)

theorem open_key_from_embedded_kdf_witness:
  "Argon2 (env_KDF env_nokdf) = None
   \<and> Open toy env_nokdf ''pw'' = Inl (Errorf ''unsupported key derivation algorithm'')
   \<and> Argon2 (env_KDF env0) = Some \<lparr> Salt = replicate 32 2, Time = 1, Memory = 65536, Threads = 4 \<rparr>
   \<and> IDKey toy (bytes_of_string ''pw'') (replicate 32 2) 1 65536 4 32 = Inr key0
   \<and> deriveKey toy env0 ''pw'' = Inr key0
   \<and> aead_Open toy key0 (replicate 15 1) (env_Data env0)
        = Some [11, 101, 100, 50, 53, 53, 49, 57, 45, 114, 97, 119, 65, 81, 73, 68]
   \<and> Open toy env0 ''pw'' = Inr s0
   \<and> IDKey toy (bytes_of_string ''pW'') (replicate 32 2) 1 65536 4 32 = Inr key1
   \<and> aead_Open toy key1 (replicate 15 1) (env_Data env0) = None
   \<and> Open toy env0 ''pW'' = Inl ErrOpen
   \<and> IDKey toy (bytes_of_string ''pw'') (replicate 32 2) 0 65536 4 32
        = Inl (Panic ''argon2: number of rounds too small'')
   \<and> Open toy env_zero_time ''pw'' = Inl (Panic ''argon2: number of rounds too small'')
   \<and> Open short_key env0 ''pw'' = Inl ErrInvalidKeySize
   \<and> env_KDF env0 = env_KDF env_empty
   \<and> deriveKey toy env0 ''pw'' = deriveKey toy env_empty ''pw''
   \<and> deriveKey toy env_nokdf ''pw'' = deriveKey toy env_nokdf ''pW''
   \<and> Open toy env_nokdf ''pw'' = Open toy env_nokdf ''pW''"
proof -
  let ?k = "\<lparr> Salt = replicate 32 2, Time = 1, Memory = 65536, Threads = 4 \<rparr>"
  have a: "Argon2 (env_KDF env_nokdf) = None" by code_simp
  have b: "Argon2 (env_KDF env0) = Some ?k" by code_simp
  have id: "IDKey toy (bytes_of_string ''pw'') (Salt ?k) (Time ?k) (Memory ?k) (Threads ?k) stateKeySize
      = Inr key0" by code_simp
  have id': "IDKey toy (bytes_of_string ''pW'') (Salt ?k) (Time ?k) (Memory ?k) (Threads ?k) stateKeySize
      = Inr key1" by code_simp
  have kl: "length key0 = KeySize" "length key1 = KeySize"
    by code_simp+
  have sl: "slice_to (env_Nonce env0) NonceSize = Inr (replicate 15 1)" by code_simp
  have dec: "aead_Open toy key0 (replicate 15 1) (env_Data env0)
        = Some [11, 101, 100, 50, 53, 53, 49, 57, 45, 114, 97, 119, 65, 81, 73, 68]" by code_simp
  have un: "json_Unmarshal_state toy [11, 101, 100, 50, 53, 53, 49, 57, 45, 114, 97, 119, 65, 81, 73, 68]
        = Inr s0" by code_simp
  have rej: "aead_Open toy key1 (replicate 15 1) (env_Data env0) = None"
    by code_simp
  let ?z = "\<lparr> Salt = replicate 32 2, Time = 0, Memory = 65536, Threads = 4 \<rparr>"
  have z: "Argon2 (env_KDF env_zero_time) = Some ?z" by code_simp
  have idz: "IDKey toy (bytes_of_string ''pw'') (Salt ?z) (Time ?z) (Memory ?z) (Threads ?z) stateKeySize
      = Inl (Panic ''argon2: number of rounds too small'')" by code_simp
  have ids: "IDKey short_key (bytes_of_string ''pw'') (Salt ?k) (Time ?k) (Memory ?k) (Threads ?k) stateKeySize
      = Inr [112, 119]" by code_simp
  have ks: "length ([112, 119] :: bytes) \<noteq> KeySize" by code_simp
  have c: "env_KDF env0 = env_KDF env_empty" by code_simp
  have d: "deriveKey toy env_nokdf ''pw'' = deriveKey toy env_nokdf ''pW''" by code_simp
  note t1 = open_key_from_embedded_kdf [of env_nokdf toy "''pw''" env_nokdf "''pW''"]
  note t2 = open_key_from_embedded_kdf [of env0 toy "''pw''" env_empty "''pw''"]
  note t3 = open_key_from_embedded_kdf [of env0 toy "''pW''" env_empty "''pW''"]
  note t4 = open_key_from_embedded_kdf [of env_zero_time toy "''pw''" env_empty "''pw''"]
  note t5 = open_key_from_embedded_kdf [of env0 short_key "''pw''" env_empty "''pw''"]
  have 1: "Open toy env_nokdf ''pw'' = Inl (Errorf ''unsupported key derivation algorithm'')"
    using t1 a by blast
  have 2: "deriveKey toy env0 ''pw'' = Inr key0"
    using t2 b id by metis
  have "Open toy env0 ''pw'' =
          (case aead_Open toy key0 (replicate 15 1) (env_Data env0) of
             None \<Rightarrow> Inl ErrOpen
           | Some pt \<Rightarrow>
               (case json_Unmarshal_state toy pt of
                  Inl m \<Rightarrow> Inl (JSONError m)
                | Inr st \<Rightarrow> Inr st))"
    using t2 b id kl(1) sl by blast
  then have 3: "Open toy env0 ''pw'' = Inr s0"
    by (simp only: dec un option.case sum.case)
  have "Open toy env0 ''pW'' =
          (case aead_Open toy key1 (replicate 15 1) (env_Data env0) of
             None \<Rightarrow> Inl ErrOpen
           | Some pt \<Rightarrow>
               (case json_Unmarshal_state toy pt of
                  Inl m \<Rightarrow> Inl (JSONError m)
                | Inr st \<Rightarrow> Inr st))"
    using t3 b id' kl(2) sl by blast
  then have 4: "Open toy env0 ''pW'' = Inl ErrOpen"
    by (simp only: rej option.case)
  have 5: "Open toy env_zero_time ''pw'' = Inl (Panic ''argon2: number of rounds too small'')"
    using t4 z idz by blast
  have b': "Argon2 (env_KDF env0) = Some ?k" by (rule b)
  have 6: "Open short_key env0 ''pw'' = Inl ErrInvalidKeySize"
    using t5 b ids ks by blast
  have 7: "deriveKey toy env0 ''pw'' = deriveKey toy env_empty ''pw''"
    using t2 c by blast
  have 8: "Open toy env_nokdf ''pw'' = Open toy env_nokdf ''pW''"
    using t1 d by blast
  have id1: "IDKey toy (bytes_of_string ''pw'') (replicate 32 2) 1 65536 4 32 = Inr key0"
    by code_simp
  have id2: "IDKey toy (bytes_of_string ''pW'') (replicate 32 2) 1 65536 4 32
      = Inr key1" by code_simp
  have id3: "IDKey toy (bytes_of_string ''pw'') (replicate 32 2) 0 65536 4 32
        = Inl (Panic ''argon2: number of rounds too small'')" by code_simp
  show ?thesis
    using a b c d dec rej 1 2 3 4 5 6 7 8 id1 id2 id3 by blast
qed

text \<open>
  C6. An envelope produced by a successful Seal carries a 32-byte nonce and a 32-byte
  salt, the first and the second 32 bytes read from the random source during the call
  (which consumes these 64 bytes), and an Argon2 descriptor with time cost 1, memory cost
  64 * 1024 KiB and parallelism 4, from which a 32-byte key is derived.
\<close>

theorem seal_fresh_nonce_salt_and_kdf_defaults:
  assumes "Seal P s p r = Inr (e, r')"
  shows "visible (env_Nonce e) = take 32 r \<and> length (visible (env_Nonce e)) = 32
    \<and> (\<exists>k. Argon2 (env_KDF e) = Some k
          \<and> Salt k = take 32 (drop 32 r) \<and> length (Salt k) = 32
          \<and> Time k = 1 \<and> Memory k = 64 * 1024 \<and> Threads k = 4
          \<and> deriveKey P e p = Inr (argon2_IDKey P (bytes_of_string p) (Salt k) 1 (64 * 1024) 4 32)
          \<and> length (argon2_IDKey P (bytes_of_string p) (Salt k) 1 (64 * 1024) 4 32) = 32)
    \<and> r' = drop 64 r"
proof -
  from Seal_Inr [OF assms] obtain key data where
    len: "64 \<le> length r" and r': "r' = drop 64 r"
    and key: "argon2_IDKey P (bytes_of_string p) (take 32 (drop 32 r)) 1 65536 4 32 = key"
    and klen: "length key = 32"
    and e: "e = \<lparr> env_KDF = \<lparr> Argon2 = Some \<lparr> Salt = take 32 (drop 32 r), Time = 1,
                                          Memory = 65536, Threads = 4 \<rparr> \<rparr>,
            env_Nonce = \<lparr> visible = take 32 r, spare = [] \<rparr>,
            env_Data = aead_Seal P key (take 15 r) data \<rparr>"
    by blast
  show ?thesis
    using len r' key klen
    by (simp add: e deriveKey_def kdfArgon2_deriveKey_def stateKeySize_def IDKey_def)
qed

theorem seal_fresh_nonce_salt_and_kdf_defaults_witness:
  "Seal toy s0 ''pw'' tape0 = Inr (env0, [])
   \<and> visible (env_Nonce env0) = take 32 tape0
   \<and> Argon2 (env_KDF env0) = Some \<lparr> Salt = take 32 (drop 32 tape0), Time = 1,
                                     Memory = 65536, Threads = 4 \<rparr>"
proof -
  have h: "Seal toy s0 ''pw'' tape0 = Inr (env0, [])"
    by code_simp
  show ?thesis
    using seal_fresh_nonce_salt_and_kdf_defaults [OF h] h by auto
qed

text \<open>
  C8. If AEAD decryption in Open succeeds but deserialization of the decrypted plaintext
  into a secret state fails, Open fails with the deserializer's error, which is not the
  authentication error \<open>ErrOpen\<close>, and returns no secret state.
\<close>

theorem deserialization_failure_distinct_error:
  assumes key: "deriveKey P e p = Inr key" and klen: "length key = KeySize"
    and nonce: "slice_to (env_Nonce e) NonceSize = Inr n"
    and dec: "aead_Open P key n (env_Data e) = Some pt"
    and bad: "json_Unmarshal_state P pt = Inl m"
  shows "Open P e p = Inl (JSONError m) \<and> Open P e p \<noteq> Inl ErrOpen
    \<and> (\<forall>st. Open P e p \<noteq> Inr st)"
  by (simp add: Open_decrypted [OF key klen nonce dec] bad)

theorem deserialization_failure_distinct_error_witness:
  "deriveKey toy env_empty ''pw'' = Inr key0
   \<and> aead_Open toy key0 (replicate 15 1) (env_Data env_empty) = Some []
   \<and> json_Unmarshal_state toy [] = Inl ''unexpected end of JSON input''
   \<and> Open toy env_empty ''pw'' = Inl (JSONError ''unexpected end of JSON input'')
   \<and> Open toy env_empty ''pw'' \<noteq> Inl ErrOpen"
proof -
  have key: "deriveKey toy env_empty ''pw'' = Inr key0" by code_simp
  have klen: "length key0 = KeySize" by code_simp
  have nonce: "slice_to (env_Nonce env_empty) NonceSize = Inr (replicate 15 1)" by code_simp
  have dec: "aead_Open toy key0 (replicate 15 1) (env_Data env_empty) = Some []" by code_simp
  have bad: "json_Unmarshal_state toy [] = Inl ''unexpected end of JSON input''" by code_simp
  show ?thesis
    using deserialization_failure_distinct_error [OF key klen nonce dec bad] key dec bad
    by simp
qed

section \<open>Claims about the wallet and its factory\<close>

lemma algorithm_tags_distinct:
  "AlgorithmEd25519Adr8 \<noteq> AlgorithmEd25519Raw" "AlgorithmEd25519Adr8 \<noteq> AlgorithmSecp256k1Bip44"
  "AlgorithmEd25519Adr8 \<noteq> AlgorithmSecp256k1Raw" "AlgorithmEd25519Raw \<noteq> AlgorithmSecp256k1Bip44"
  "AlgorithmEd25519Raw \<noteq> AlgorithmSecp256k1Raw" "AlgorithmSecp256k1Bip44 \<noteq> AlgorithmSecp256k1Raw"
  by (simp_all add: AlgorithmEd25519Adr8_def AlgorithmEd25519Raw_def
      AlgorithmSecp256k1Bip44_def AlgorithmSecp256k1Raw_def)

lemma newWallet_Inr:
  assumes "newWallet S st cfg = Inr w"
  shows "w_cfg w = cfg \<and> w_state w = st
    \<and> ((Algorithm st = AlgorithmEd25519Adr8 \<or> Algorithm st = AlgorithmEd25519Raw)
          \<and> (\<exists>k. w_signer w = Ed25519Wrapped k)
        \<or> (Algorithm st = AlgorithmSecp256k1Bip44 \<or> Algorithm st = AlgorithmSecp256k1Raw)
          \<and> (\<exists>k. w_signer w = Secp256k1Signer k))"
  using assms algorithm_tags_distinct
  by (auto simp: newWallet_def split: if_splits sum.splits)

lemma newWallet_Ed25519Raw:
  "Algorithm st = AlgorithmEd25519Raw \<Longrightarrow>
   newWallet S st cfg =
     (case unmarshalBase64 S (Data st) of
        Inl msg \<Rightarrow> Inl (Wrapf ''failed to initialize signer: '' (LibError msg))
      | Inr sg \<Rightarrow> Inr \<lparr> w_cfg = cfg, w_state = st, w_signer = Ed25519Wrapped sg \<rparr>)"
  using algorithm_tags_distinct by (simp add: newWallet_def)

lemma newWallet_Secp256k1Raw:
  "Algorithm st = AlgorithmSecp256k1Raw \<Longrightarrow>
   newWallet S st cfg =
     (case Secp256k1FromHex S (Data st) of
        Inl msg \<Rightarrow> Inl (Wrapf ''failed to initialize signer: '' (LibError msg))
      | Inr sg \<Rightarrow> Inr \<lparr> w_cfg = cfg, w_state = st, w_signer = Secp256k1Signer sg \<rparr>)"
  using algorithm_tags_distinct by (simp add: newWallet_def)

lemma Address_cong:
  assumes "cfg_Algorithm (w_cfg w1) = cfg_Algorithm (w_cfg w2)" and "w_signer w1 = w_signer w2"
  shows "SignatureAddressSpec S w1 = SignatureAddressSpec S w2 \<and> Address S w1 = Address S w2"
  using assms by (simp add: SignatureAddressSpec_def Address_def Signer_def)

lemma Import_Inr:
  assumes "Import P S fs r name passphrase rawCfg src = (Inr w, fs')"
  shows "\<exists>cfg. unmarshalConfig S rawCfg = Inr cfg
    \<and> newWallet S \<lparr> Algorithm = cfg_Algorithm cfg, Data = src_Data src \<rparr> cfg = Inr w"
proof (cases "unmarshalConfig S rawCfg")
  case (Inl err)
  with assms show ?thesis by (simp add: Import_def)
next
  case (Inr cfg)
  show ?thesis
  proof (cases "newWallet S \<lparr> Algorithm = cfg_Algorithm cfg, Data = src_Data src \<rparr> cfg")
    case (Inl err)
    with assms Inr show ?thesis
      by (simp add: Import_def split: option.splits)
  next
    case nw: (Inr w')
    with assms Inr have "w' = w"
      by (simp add: Import_def split: option.splits sum.splits prod.splits)
    with nw Inr show ?thesis by simp
  qed
qed

lemma newWallet_unsupported:
  assumes "Algorithm st \<noteq> AlgorithmEd25519Adr8" and "Algorithm st \<noteq> AlgorithmEd25519Raw"
    and "Algorithm st \<noteq> AlgorithmSecp256k1Bip44" and "Algorithm st \<noteq> AlgorithmSecp256k1Raw"
  shows "newWallet S st cfg
    = Inl (Errorf (''algorithm '' @ [CHR 0x27] @ Algorithm st @ [CHR 0x27] @ '' not supported''))"
  using assms by (simp add: newWallet_def)

lemma Create_write_then_newWallet:
  assumes "unmarshalConfig S rawCfg = Inr cfg"
    and "bip39_NewEntropy r 256 = Inr (entropy, r1)"
    and "bip39_NewMnemonic S entropy = Inr mnemonic"
    and "Seal P \<lparr> Algorithm = cfg_Algorithm cfg, Data = mnemonic \<rparr> passphrase r1 = Inr (envelope, r2)"
    and "json_Marshal_envelope S envelope = Inr raw"
    and "WriteFile S fs (getWalletFilename S name) raw = (None, fs')"
  shows "Create P S fs r name passphrase rawCfg
    = (newWallet S \<lparr> Algorithm = cfg_Algorithm cfg, Data = mnemonic \<rparr> cfg, fs')"
  using assms by (simp add: Create_def)

lemma Import_newWallet_fails:
  assumes "unmarshalConfig S rawCfg = Inr cfg"
    and "newWallet S \<lparr> Algorithm = cfg_Algorithm cfg, Data = src_Data src \<rparr> cfg = Inl err"
  shows "\<exists>e. Import P S fs r name passphrase rawCfg src = (Inl e, fs)"
  using assms by (cases "src_Kind src") (simp_all add: Import_def)

lemma Create_Inr:
  assumes "Create P S fs r name passphrase rawCfg = (Inr w, fs')"
  shows "\<exists>cfg mnemonic. unmarshalConfig S rawCfg = Inr cfg
    \<and> newWallet S \<lparr> Algorithm = cfg_Algorithm cfg, Data = mnemonic \<rparr> cfg = Inr w"
proof (cases "unmarshalConfig S rawCfg")
  case (Inl err)
  with assms show ?thesis by (simp add: Create_def)
next
  case (Inr cfg)
  with assms show ?thesis
    by (auto simp: Create_def Let_def split: sum.splits prod.splits option.splits)
qed

lemma HasConsensusSigner_newWallet:
  assumes "unmarshalConfig S rawCfg = Inr cfg"
    and "newWallet S st cfg = Inr w" and "cfg_Algorithm cfg = Algorithm st"
  shows "HasConsensusSigner S rawCfg = (ConsensusSigner w \<noteq> None)"
  using newWallet_Inr [OF assms(2)] assms(1,3) algorithm_tags_distinct
  by (auto simp: ConsensusSigner_def HasConsensusSigner_def)

text \<open>
  C4, as stated, fails: \<open>Load\<close> builds the wallet from the caller's configuration and
  the decrypted state without comparing their algorithms. Loaded with a Secp256k1-Raw
  configuration over a file sealed for Ed25519-Raw, the wallet has a consensus signer
  while \<open>HasConsensusSigner\<close> on its configuration is false.
\<close>

theorem consensus_signer_config_mismatch_counterexample:
  "Load toy toy_sys fs0 ''w'' ''pw'' (Some cfg_secp) = Inr w_mixed
   \<and> cfg_Algorithm (w_cfg w_mixed) = AlgorithmSecp256k1Raw
   \<and> ConsensusSigner w_mixed = Some (''AQID'', 0)
   \<and> HasConsensusSigner toy_sys (Some cfg_secp) = False"
  by code_simp

text \<open>
  C4, amended. For a wallet built by \<open>newWallet\<close>, \<open>ConsensusSigner\<close> returns a signer
  exactly when the algorithm of the wallet's secret state is Ed25519-ADR8 or Ed25519-Raw,
  and the absent value when it is Secp256k1-BIP44 or Secp256k1-Raw. It agrees with
  \<open>HasConsensusSigner\<close> on the wallet's configuration whenever that configuration
  carries the algorithm of the secret state, as it does for every wallet that \<open>Create\<close>
  or \<open>Import\<close> returns.
\<close>

theorem consensus_signer_iff_ed25519:
  "(newWallet S st cfg = Inr w \<longrightarrow>
       (ConsensusSigner w \<noteq> None
          \<longleftrightarrow> Algorithm st = AlgorithmEd25519Adr8 \<or> Algorithm st = AlgorithmEd25519Raw)
     \<and> (Algorithm st = AlgorithmSecp256k1Bip44 \<or> Algorithm st = AlgorithmSecp256k1Raw
          \<longrightarrow> ConsensusSigner w = None)
     \<and> (unmarshalConfig S rawCfg = Inr cfg \<and> cfg_Algorithm cfg = Algorithm st
          \<longrightarrow> HasConsensusSigner S rawCfg = (ConsensusSigner w \<noteq> None)))
   \<and> (Create P S fs r name passphrase rawCfg = (Inr w, fs')
        \<longrightarrow> HasConsensusSigner S rawCfg = (ConsensusSigner w \<noteq> None))
   \<and> (Import P S fs r name passphrase rawCfg src = (Inr w, fs')
        \<longrightarrow> HasConsensusSigner S rawCfg = (ConsensusSigner w \<noteq> None))"
proof (intro conjI impI)
  assume nw: "newWallet S st cfg = Inr w"
  from newWallet_Inr [OF nw] algorithm_tags_distinct
  show "ConsensusSigner w \<noteq> None
          \<longleftrightarrow> Algorithm st = AlgorithmEd25519Adr8 \<or> Algorithm st = AlgorithmEd25519Raw"
    by (auto simp: ConsensusSigner_def)
  {
    assume "Algorithm st = AlgorithmSecp256k1Bip44 \<or> Algorithm st = AlgorithmSecp256k1Raw"
    with newWallet_Inr [OF nw] algorithm_tags_distinct
    show "ConsensusSigner w = None"
      by (auto simp: ConsensusSigner_def)
  }
  {
    assume "unmarshalConfig S rawCfg = Inr cfg \<and> cfg_Algorithm cfg = Algorithm st"
    with nw show "HasConsensusSigner S rawCfg = (ConsensusSigner w \<noteq> None)"
      by (simp add: HasConsensusSigner_newWallet)
  }
next
  assume "Create P S fs r name passphrase rawCfg = (Inr w, fs')"
  from Create_Inr [OF this] obtain cfg' mnemonic where
    "unmarshalConfig S rawCfg = Inr cfg'"
    "newWallet S \<lparr> Algorithm = cfg_Algorithm cfg', Data = mnemonic \<rparr> cfg' = Inr w"
    by blast
  then show "HasConsensusSigner S rawCfg = (ConsensusSigner w \<noteq> None)"
    by (rule HasConsensusSigner_newWallet) simp
next
  assume "Import P S fs r name passphrase rawCfg src = (Inr w, fs')"
  from Import_Inr [OF this] obtain cfg' where
    "unmarshalConfig S rawCfg = Inr cfg'"
    "newWallet S \<lparr> Algorithm = cfg_Algorithm cfg', Data = src_Data src \<rparr> cfg' = Inr w"
    by blast
  then show "HasConsensusSigner S rawCfg = (ConsensusSigner w \<noteq> None)"
    by (rule HasConsensusSigner_newWallet) simp
qed

theorem consensus_signer_iff_ed25519_witness:
  "newWallet toy_sys s0 cfg_raw = Inr w_raw
   \<and> ConsensusSigner w_raw = Some (''AQID'', 0)
   \<and> HasConsensusSigner toy_sys (Some cfg_raw)
   \<and> newWallet toy_sys s_secp cfg_secp = Inr w_secp
   \<and> Algorithm s_secp = AlgorithmSecp256k1Raw
   \<and> ConsensusSigner w_secp = None
   \<and> \<not> HasConsensusSigner toy_sys (Some cfg_secp)
   \<and> Create toy toy_sys [] (replicate 96 200) ''w'' ''pw'' (Some cfg_adr8)
        = (Inr w_adr8, [(''/cfg/w.wallet'', raw_adr8)])
   \<and> HasConsensusSigner toy_sys (Some cfg_adr8) = (ConsensusSigner w_adr8 \<noteq> None)
   \<and> Import toy toy_sys [] tape0 ''w'' ''pw'' (Some cfg_raw) src0 = (Inr w_raw, fs0)
   \<and> HasConsensusSigner toy_sys (Some cfg_raw) = (ConsensusSigner w_raw \<noteq> None)"
proof -
  have a: "newWallet toy_sys s0 cfg_raw = Inr w_raw" by code_simp
  have b: "newWallet toy_sys s_secp cfg_secp = Inr w_secp" by code_simp
  have c: "Algorithm s0 = AlgorithmEd25519Raw" "Algorithm s_secp = AlgorithmSecp256k1Raw"
    by code_simp+
  have d: "unmarshalConfig toy_sys (Some cfg_raw) = Inr cfg_raw \<and> cfg_Algorithm cfg_raw = Algorithm s0"
    "unmarshalConfig toy_sys (Some cfg_secp) = Inr cfg_secp \<and> cfg_Algorithm cfg_secp = Algorithm s_secp"
    by code_simp+
  have e: "ConsensusSigner w_raw = Some (''AQID'', 0)" by code_simp
  have cr: "Create toy toy_sys [] (replicate 96 200) ''w'' ''pw'' (Some cfg_adr8)
        = (Inr w_adr8, [(''/cfg/w.wallet'', raw_adr8)])" by code_simp
  have im: "Import toy toy_sys [] tape0 ''w'' ''pw'' (Some cfg_raw) src0 = (Inr w_raw, fs0)"
    by code_simp
  note i1 = consensus_signer_iff_ed25519
    [where S = toy_sys and st = s0 and cfg = cfg_raw and w = w_raw and rawCfg = "Some cfg_raw"
       and P = toy and fs = "[]" and r = tape0 and name = "''w''" and passphrase = "''pw''"
       and src = src0 and fs' = fs0]
  note i2 = consensus_signer_iff_ed25519
    [where S = toy_sys and st = s_secp and cfg = cfg_secp and w = w_secp and rawCfg = "Some cfg_secp"]
  note i3 = consensus_signer_iff_ed25519
    [where S = toy_sys and w = w_adr8 and rawCfg = "Some cfg_adr8"
       and P = toy and fs = "[]" and r = "replicate 96 200" and name = "''w''"
       and passphrase = "''pw''" and fs' = "[(''/cfg/w.wallet'', raw_adr8)]"]
  have 1: "HasConsensusSigner toy_sys (Some cfg_raw)"
    using i1 a c d by blast
  have 2: "ConsensusSigner w_secp = None"
    using i2 b c by blast
  have 3: "\<not> HasConsensusSigner toy_sys (Some cfg_secp)"
    using i2 b d 2 by blast
  have 4: "HasConsensusSigner toy_sys (Some cfg_adr8) = (ConsensusSigner w_adr8 \<noteq> None)"
    using i3 cr by blast
  have 5: "HasConsensusSigner toy_sys (Some cfg_raw) = (ConsensusSigner w_raw \<noteq> None)"
    using i1 im by blast
  show ?thesis
    using a b c e cr im 1 2 3 4 5 by blast
qed

text \<open>
  C7. Under a raw-key algorithm (Ed25519-Raw or Secp256k1-Raw), for any secret data and
  any two values of the configured number, wallet construction either fails with the
  same error for both or yields wallets with the same signer, the same signature address
  specification and the same address.
\<close>

theorem raw_key_index_noninterference:
  assumes "Algorithm st = AlgorithmEd25519Raw \<or> Algorithm st = AlgorithmSecp256k1Raw"
  shows "(\<exists>err. newWallet S st (cfg \<lparr> cfg_Number := n1 \<rparr>) = Inl err
              \<and> newWallet S st (cfg \<lparr> cfg_Number := n2 \<rparr>) = Inl err)
       \<or> (\<exists>w1 w2. newWallet S st (cfg \<lparr> cfg_Number := n1 \<rparr>) = Inr w1
              \<and> newWallet S st (cfg \<lparr> cfg_Number := n2 \<rparr>) = Inr w2
              \<and> Signer w1 = Signer w2
              \<and> SignatureAddressSpec S w1 = SignatureAddressSpec S w2
              \<and> Address S w1 = Address S w2)"
  using assms
proof
  assume a: "Algorithm st = AlgorithmEd25519Raw"
  show ?thesis
  proof (cases "unmarshalBase64 S (Data st)")
    case (Inl msg)
    then show ?thesis by (simp add: newWallet_Ed25519Raw [OF a])
  next
    case (Inr sg)
    let ?w = "\<lambda>n. \<lparr> w_cfg = cfg \<lparr> cfg_Number := n \<rparr>, w_state = st, w_signer = Ed25519Wrapped sg \<rparr>"
    have "SignatureAddressSpec S (?w n1) = SignatureAddressSpec S (?w n2)
        \<and> Address S (?w n1) = Address S (?w n2)"
      by (rule Address_cong) simp_all
    then show ?thesis
      using Inr by (simp add: newWallet_Ed25519Raw [OF a] Signer_def)
  qed
next
  assume a: "Algorithm st = AlgorithmSecp256k1Raw"
  show ?thesis
  proof (cases "Secp256k1FromHex S (Data st)")
    case (Inl msg)
    then show ?thesis by (simp add: newWallet_Secp256k1Raw [OF a])
  next
    case (Inr sg)
    let ?w = "\<lambda>n. \<lparr> w_cfg = cfg \<lparr> cfg_Number := n \<rparr>, w_state = st, w_signer = Secp256k1Signer sg \<rparr>"
    have "SignatureAddressSpec S (?w n1) = SignatureAddressSpec S (?w n2)
        \<and> Address S (?w n1) = Address S (?w n2)"
      by (rule Address_cong) simp_all
    then show ?thesis
      using Inr by (simp add: newWallet_Secp256k1Raw [OF a] Signer_def)
  qed
qed

theorem raw_key_index_noninterference_witness:
  "Algorithm s0 = AlgorithmEd25519Raw
   \<and> newWallet toy_sys s0 (cfg_raw \<lparr> cfg_Number := 0 \<rparr>) = Inr w_raw
   \<and> newWallet toy_sys s0 (cfg_raw \<lparr> cfg_Number := 7 \<rparr>) = Inr (w_raw \<lparr> w_cfg := cfg_raw \<lparr> cfg_Number := 7 \<rparr> \<rparr>)
   \<and> Signer w_raw = Signer (w_raw \<lparr> w_cfg := cfg_raw \<lparr> cfg_Number := 7 \<rparr> \<rparr>)
   \<and> Address toy_sys w_raw = Address toy_sys (w_raw \<lparr> w_cfg := cfg_raw \<lparr> cfg_Number := 7 \<rparr> \<rparr>)"
proof -
  have a: "Algorithm s0 = AlgorithmEd25519Raw" by code_simp
  have b: "newWallet toy_sys s0 (cfg_raw \<lparr> cfg_Number := 0 \<rparr>) = Inr w_raw"
    "newWallet toy_sys s0 (cfg_raw \<lparr> cfg_Number := 7 \<rparr>) = Inr (w_raw \<lparr> w_cfg := cfg_raw \<lparr> cfg_Number := 7 \<rparr> \<rparr>)"
    by code_simp+
  show ?thesis
    using raw_key_index_noninterference [where st = s0 and S = toy_sys and cfg = cfg_raw and ?n1.0 = 0 and ?n2.0 = 7] a b by auto
qed

text \<open>
  C9. For every successful Import, \<open>UnsafeExport\<close> of the returned wallet is exactly the
  imported \<open>src.Data\<close>.
\<close>

theorem import_then_export:
  assumes "Import P S fs r name passphrase rawCfg src = (Inr w, fs')"
  shows "UnsafeExport w = src_Data src"
proof -
  from Import_Inr [OF assms] obtain cfg where
    "newWallet S \<lparr> Algorithm = cfg_Algorithm cfg, Data = src_Data src \<rparr> cfg = Inr w"
    by blast
  from newWallet_Inr [OF this] show ?thesis
    by (simp add: UnsafeExport_def)
qed

theorem import_then_export_witness:
  "Import toy toy_sys [] tape0 ''w'' ''pw'' (Some cfg_raw) src0 = (Inr w_raw, fs0)
   \<and> UnsafeExport w_raw = ''AQID''"
proof -
  have a: "Import toy toy_sys [] tape0 ''w'' ''pw'' (Some cfg_raw) src0 = (Inr w_raw, fs0)"
    by code_simp
  have b: "src_Data src0 = ''AQID''" by code_simp
  show ?thesis
    using import_then_export [OF a] a b by simp
qed

text \<open>
  C10. Create writes the sealed wallet file before it constructs the signer and does not
  check that the algorithm takes a mnemonic: whenever signer construction fails on the
  generated mnemonic, Create returns that error and the file system is the one the
  successful write left; an unknown algorithm tag always makes it fail. Import constructs
  the signer first: when signer construction fails on the imported data, Import returns
  an error and the file system is unchanged.
\<close>

theorem create_persists_before_signer_import_after:
  "(unmarshalConfig S rawCfg = Inr cfg
      \<and> bip39_NewEntropy r 256 = Inr (entropy, r1)
      \<and> bip39_NewMnemonic S entropy = Inr mnemonic
      \<and> Seal P \<lparr> Algorithm = cfg_Algorithm cfg, Data = mnemonic \<rparr> passphrase r1 = Inr (envelope, r2)
      \<and> json_Marshal_envelope S envelope = Inr raw
      \<and> WriteFile S fs (getWalletFilename S name) raw = (None, fs')
      \<and> newWallet S \<lparr> Algorithm = cfg_Algorithm cfg, Data = mnemonic \<rparr> cfg = Inl err
    \<longrightarrow> Create P S fs r name passphrase rawCfg = (Inl err, fs'))
   \<and> (cfg_Algorithm cfg \<noteq> AlgorithmEd25519Adr8 \<and> cfg_Algorithm cfg \<noteq> AlgorithmEd25519Raw
      \<and> cfg_Algorithm cfg \<noteq> AlgorithmSecp256k1Bip44 \<and> cfg_Algorithm cfg \<noteq> AlgorithmSecp256k1Raw
    \<longrightarrow> newWallet S \<lparr> Algorithm = cfg_Algorithm cfg, Data = mnemonic \<rparr> cfg
        = Inl (Errorf (''algorithm '' @ [CHR 0x27] @ cfg_Algorithm cfg @ [CHR 0x27] @ '' not supported'')))
   \<and> (unmarshalConfig S rawCfg = Inr cfg
      \<and> newWallet S \<lparr> Algorithm = cfg_Algorithm cfg, Data = src_Data src \<rparr> cfg = Inl err'
    \<longrightarrow> (\<exists>e. Import P S fs r name passphrase rawCfg src = (Inl e, fs)))"
proof (intro conjI impI)
  assume "unmarshalConfig S rawCfg = Inr cfg
      \<and> bip39_NewEntropy r 256 = Inr (entropy, r1)
      \<and> bip39_NewMnemonic S entropy = Inr mnemonic
      \<and> Seal P \<lparr> Algorithm = cfg_Algorithm cfg, Data = mnemonic \<rparr> passphrase r1 = Inr (envelope, r2)
      \<and> json_Marshal_envelope S envelope = Inr raw
      \<and> WriteFile S fs (getWalletFilename S name) raw = (None, fs')
      \<and> newWallet S \<lparr> Algorithm = cfg_Algorithm cfg, Data = mnemonic \<rparr> cfg = Inl err"
  then show "Create P S fs r name passphrase rawCfg = (Inl err, fs')"
    by (simp add: Create_write_then_newWallet)
next
  assume "cfg_Algorithm cfg \<noteq> AlgorithmEd25519Adr8 \<and> cfg_Algorithm cfg \<noteq> AlgorithmEd25519Raw
      \<and> cfg_Algorithm cfg \<noteq> AlgorithmSecp256k1Bip44 \<and> cfg_Algorithm cfg \<noteq> AlgorithmSecp256k1Raw"
  then show "newWallet S \<lparr> Algorithm = cfg_Algorithm cfg, Data = mnemonic \<rparr> cfg
        = Inl (Errorf (''algorithm '' @ [CHR 0x27] @ cfg_Algorithm cfg @ [CHR 0x27] @ '' not supported''))"
    using newWallet_unsupported [of "\<lparr> Algorithm = cfg_Algorithm cfg, Data = mnemonic \<rparr>" S cfg]
    by simp
next
  assume "unmarshalConfig S rawCfg = Inr cfg
      \<and> newWallet S \<lparr> Algorithm = cfg_Algorithm cfg, Data = src_Data src \<rparr> cfg = Inl err'"
  then show "\<exists>e. Import P S fs r name passphrase rawCfg src = (Inl e, fs)"
    by (simp add: Import_newWallet_fails)
qed

theorem create_persists_before_signer_import_after_witness:
  "Create toy toy_sys [] (replicate 96 200) ''w'' ''pw'' (Some cfg_raw)
     = (Inl err_b64, [(''/cfg/w.wallet'', raw_c)])
   \<and> ReadFile toy_sys [(''/cfg/w.wallet'', raw_c)] (getWalletFilename toy_sys ''w'') = Inr raw_c
   \<and> newWallet toy_sys \<lparr> Algorithm = cfg_Algorithm cfg_rsa, Data = mnemonic0 \<rparr> cfg_rsa
     = Inl (Errorf ''algorithm 'rsa' not supported'')
   \<and> Import toy toy_sys [] (replicate 96 200) ''w'' ''pw'' (Some cfg_raw) src_bad = (Inl err_b64, [])"
proof -
  have c1: "unmarshalConfig toy_sys (Some cfg_raw) = Inr cfg_raw"
    by code_simp
  have c2: "bip39_NewEntropy (replicate 96 200) 256 = Inr (replicate 32 200, replicate 64 200)"
    by code_simp
  have c3: "bip39_NewMnemonic toy_sys (replicate 32 200) = Inr mnemonic0"
    by code_simp
  have c4: "Seal toy \<lparr> Algorithm = cfg_Algorithm cfg_raw, Data = mnemonic0 \<rparr> ''pw'' (replicate 64 200)
          = Inr (env_c, [])"
    by code_simp
  have c5: "json_Marshal_envelope toy_sys env_c = Inr raw_c"
    by code_simp
  have c6: "WriteFile toy_sys [] (getWalletFilename toy_sys ''w'') raw_c
          = (None, [(''/cfg/w.wallet'', raw_c)])"
    by code_simp
  have c7: "newWallet toy_sys \<lparr> Algorithm = cfg_Algorithm cfg_raw, Data = mnemonic0 \<rparr> cfg_raw
          = Inl err_b64"
    by code_simp
  have u: "cfg_Algorithm cfg_rsa \<noteq> AlgorithmEd25519Adr8 \<and> cfg_Algorithm cfg_rsa \<noteq> AlgorithmEd25519Raw
      \<and> cfg_Algorithm cfg_rsa \<noteq> AlgorithmSecp256k1Bip44 \<and> cfg_Algorithm cfg_rsa \<noteq> AlgorithmSecp256k1Raw"
    by code_simp
  have i: "unmarshalConfig toy_sys (Some cfg_raw) = Inr cfg_raw
      \<and> newWallet toy_sys \<lparr> Algorithm = cfg_Algorithm cfg_raw, Data = src_Data src_bad \<rparr> cfg_raw = Inl err_b64"
    by code_simp
  have rd: "ReadFile toy_sys [(''/cfg/w.wallet'', raw_c)] (getWalletFilename toy_sys ''w'') = Inr raw_c"
    by code_simp
  have m: "''algorithm '' @ [CHR 0x27] @ cfg_Algorithm cfg_rsa @ [CHR 0x27] @ '' not supported''
      = ''algorithm 'rsa' not supported''"
    by code_simp
  have imp: "Import toy toy_sys [] (replicate 96 200) ''w'' ''pw'' (Some cfg_raw) src_bad = (Inl err_b64, [])"
    by code_simp
  note i1 = create_persists_before_signer_import_after
    [where S = toy_sys and P = toy and rawCfg = "Some cfg_raw" and cfg = cfg_raw
       and r = "replicate 96 200" and entropy = "replicate 32 200" and ?r1.0 = "replicate 64 200"
       and mnemonic = mnemonic0 and passphrase = "''pw''" and envelope = env_c and ?r2.0 = "[]"
       and raw = raw_c and fs = "[]" and name = "''w''" and fs' = "[(''/cfg/w.wallet'', raw_c)]"
       and err = err_b64 and src = src_bad and err' = err_b64]
  note i2 = create_persists_before_signer_import_after
    [where S = toy_sys and cfg = cfg_rsa and mnemonic = mnemonic0]
  have 1: "Create toy toy_sys [] (replicate 96 200) ''w'' ''pw'' (Some cfg_raw)
     = (Inl err_b64, [(''/cfg/w.wallet'', raw_c)])"
    using i1 c1 c2 c3 c4 c5 c6 c7 by blast
  have 2: "newWallet toy_sys \<lparr> Algorithm = cfg_Algorithm cfg_rsa, Data = mnemonic0 \<rparr> cfg_rsa
     = Inl (Errorf ''algorithm 'rsa' not supported'')"
  proof -
    have "newWallet toy_sys \<lparr> Algorithm = cfg_Algorithm cfg_rsa, Data = mnemonic0 \<rparr> cfg_rsa
      = Inl (Errorf (''algorithm '' @ [CHR 0x27] @ cfg_Algorithm cfg_rsa @ [CHR 0x27]
                       @ '' not supported''))"
      using i2 u by blast
    then show ?thesis by (simp only: m)
  qed
  have 3: "\<exists>e. Import toy toy_sys [] (replicate 96 200) ''w'' ''pw'' (Some cfg_raw) src_bad = (Inl e, [])"
    using i1 i by blast
  show ?thesis
    using 1 2 3 rd imp by blast
qed

end
